theory Spec2Isabelle
  imports Complex_Main "HOL-Library.AList"
begin


section \<open>Tokens (token.ts)\<close>

text \<open>
  The enum \<open>TokenType\<close>. Its members are strings at run time (\<open>TokenType.ASSIGN = '='\<close>);
  \<open>tokenTypeText\<close> gives that string, which the parser's messages print.

  \<open>lookupIdent\<close> reads \<open>KEYWORDS[value]\<close> on a plain object literal, so a name that
  \<open>Object.prototype\<close> defines (\<open>constructor\<close>, \<open>toString\<close>, ...) is found there and
  returned as if it were a token type. \<open>INHERITED name\<close> stands for that value; how
  a message prints it depends on the engine, and \<open>tokenTypeText\<close> names the member
  instead.
\<close>

datatype TokenType =
    ILLEGAL | EOF | ASSIGN | EQ | NOT_EQ | IDENT | INT_T | PLUS | COMMA | SEMICOLON
  | COLON | MINUS | BANG | SLASH | ASTERISK | LT | GT | LPAREN | RPAREN | LBRACE
  | RBRACE | LBRACKET | RBRACKET | FUNCTION | LET | TRUE | FALSE | IF | ELSE
  | RETURN | STRING | INHERITED string

fun tokenTypeText :: "TokenType \<Rightarrow> string" where
  "tokenTypeText ILLEGAL = ''ILLEGAL''"
| "tokenTypeText EOF = ''EOF''"
| "tokenTypeText ASSIGN = ''=''"
| "tokenTypeText EQ = ''==''"
| "tokenTypeText NOT_EQ = ''!=''"
| "tokenTypeText IDENT = ''IDENT''"
| "tokenTypeText INT_T = ''INT''"
| "tokenTypeText PLUS = ''+''"
| "tokenTypeText COMMA = '',''"
| "tokenTypeText SEMICOLON = '';''"
| "tokenTypeText COLON = '':''"
| "tokenTypeText MINUS = ''-''"
| "tokenTypeText BANG = ''!''"
| "tokenTypeText SLASH = ''/''"
| "tokenTypeText ASTERISK = ''*''"
| "tokenTypeText LT = ''<''"
| "tokenTypeText GT = ''>''"
| "tokenTypeText LPAREN = ''(''"
| "tokenTypeText RPAREN = '')''"
| "tokenTypeText LBRACE = ''{''"
| "tokenTypeText RBRACE = ''}''"
| "tokenTypeText LBRACKET = ''[''"
| "tokenTypeText RBRACKET = '']''"
| "tokenTypeText FUNCTION = ''FUNCTION''"
| "tokenTypeText LET = ''LET''"
| "tokenTypeText TRUE = ''TRUE''"
| "tokenTypeText FALSE = ''FALSE''"
| "tokenTypeText IF = ''IF''"
| "tokenTypeText ELSE = ''ELSE''"
| "tokenTypeText RETURN = ''RETURN''"
| "tokenTypeText STRING = ''STRING''"
| "tokenTypeText (INHERITED name) = ''Object.prototype.'' @ name"

definition KEYWORDS :: "(string \<times> TokenType) list" where
  "KEYWORDS =
    [(''fn'', FUNCTION), (''let'', LET), (''true'', TRUE), (''false'', FALSE),
     (''if'', IF), (''else'', ELSE), (''return'', RETURN)]"

definition objectPrototypeNames :: "string list" where
  "objectPrototypeNames =
    [''constructor'', ''hasOwnProperty'', ''isPrototypeOf'', ''propertyIsEnumerable'',
     ''toLocaleString'', ''toString'', ''valueOf'', ''__proto__'',
     ''__defineGetter__'', ''__defineSetter__'', ''__lookupGetter__'', ''__lookupSetter__'']"

definition lookupIdent :: "string \<Rightarrow> TokenType" where
  "lookupIdent value =
    (case map_of KEYWORDS value of
       Some tokenType \<Rightarrow> tokenType
     | None \<Rightarrow> if value \<in> set objectPrototypeNames then INHERITED value else IDENT)"

datatype Token = Token (tokenType: TokenType) (literal: string)

section \<open>Lexer (lexer.ts)\<close>

text \<open>
  Source text is a list of characters; \<open>ch\<close> is a string as in the source, empty
  (\<open>ZERO\<close>) past the end of the input and one character long otherwise. A
  character is a UTF-16 code unit below \<open>U+0100\<close> (ASCII and Latin-1), and
  \<open>codeUnit\<close> is its number.
\<close>

definition ZERO :: string where
  "ZERO = []"

definition WHITE_SPACES :: "string list" where
  "WHITE_SPACES = ['' '', [CHR 0x09], [CHR 0x0A], [CHR 0x0D]]"

definition isDigit :: "string \<Rightarrow> bool" where
  "isDigit s = (case s of [c] \<Rightarrow> c \<in> set ''0123456789'' | _ \<Rightarrow> False)"

text \<open>
  \<open>toLowerCase\<close> and \<open>toUpperCase\<close>, as lists of code points, since the upper case of
  three Latin-1 letters is not Latin-1: the micro sign \<open>U+00B5\<close> gives \<open>U+039C\<close>,
  the sharp s \<open>U+00DF\<close> gives \<open>SS\<close>, and \<open>U+00FF\<close> gives \<open>U+0178\<close>. The letters
  with a lower case are \<open>A\<close> to \<open>Z\<close>, \<open>U+00C0\<close> to \<open>U+00D6\<close> and \<open>U+00D8\<close> to
  \<open>U+00DE\<close>; their lower case is 32 further.
\<close>

definition codeUnit :: "char \<Rightarrow> nat" where
  "codeUnit c = of_char c"

definition lowerCaseOf :: "char \<Rightarrow> nat list" where
  "lowerCaseOf c =
    (let n = codeUnit c
     in if (65 \<le> n \<and> n \<le> 90) \<or> (192 \<le> n \<and> n \<le> 214) \<or> (216 \<le> n \<and> n \<le> 222)
        then [n + 32] else [n])"

definition upperCaseOf :: "char \<Rightarrow> nat list" where
  "upperCaseOf c =
    (let n = codeUnit c
     in if (97 \<le> n \<and> n \<le> 122) \<or> (224 \<le> n \<and> n \<le> 246) \<or> (248 \<le> n \<and> n \<le> 254)
        then [n - 32]
        else if n = 181 then [924]
        else if n = 223 then [83, 83]
        else if n = 255 then [376]
        else [n])"

definition toLowerCase :: "string \<Rightarrow> nat list" where
  "toLowerCase s = concat (map lowerCaseOf s)"

definition toUpperCase :: "string \<Rightarrow> nat list" where
  "toUpperCase s = concat (map upperCaseOf s)"

text \<open>\<open>String.prototype.substring\<close>: both ends are clamped to the length, and swapped
  when the first is the larger.\<close>

definition substring :: "string \<Rightarrow> nat \<Rightarrow> nat \<Rightarrow> string" where
  "substring s a b =
    (let a' = min a (length s); b' = min b (length s);
         lo = min a' b'; hi = max a' b'
     in take (hi - lo) (drop lo s))"

record Lexer =
  input :: string
  position :: nat
  readPosition :: nat
  ch :: string

definition peakChar :: "Lexer \<Rightarrow> string" where
  "peakChar l =
    (if readPosition l \<ge> length (input l) then ZERO else [input l ! readPosition l])"

definition readChar :: "Lexer \<Rightarrow> Lexer" where
  "readChar l = l\<lparr>ch := peakChar l, position := readPosition l,
                  readPosition := readPosition l + 1\<rparr>"

text \<open>The constructor: the fields start at 0, 0 and \<open>ZERO\<close>, then one \<open>readChar\<close>.\<close>

definition newLexer :: "string \<Rightarrow> Lexer" where
  "newLexer inp = readChar \<lparr>input = inp, position = 0, readPosition = 0, ch = ZERO\<rparr>"

definition token :: "TokenType \<Rightarrow> Lexer \<Rightarrow> Token" where
  "token tt l = Token tt (ch l)"

definition endsWithEqual :: "TokenType \<Rightarrow> TokenType \<Rightarrow> bool \<Rightarrow> Lexer \<Rightarrow> Token \<times> Lexer" where
  "endsWithEqual oneChar twoChars duplicateChars l =
    (if peakChar l = ''='' then
       (let currentChar = ch l;
            l' = readChar l;
            v = (if duplicateChars then currentChar @ currentChar else currentChar @ ch l')
        in (Token twoChars v, l'))
     else (token oneChar l, l))"

function skipWhitespace :: "Lexer \<Rightarrow> Lexer" where
  "skipWhitespace l = (if ch l \<in> set WHITE_SPACES then skipWhitespace (readChar l) else l)"
  by pat_completeness auto
termination
  by (relation "measure (\<lambda>l. if ch l \<in> set WHITE_SPACES
                              then Suc (length (input l) - readPosition l) else 0)")
     (auto simp: readChar_def peakChar_def WHITE_SPACES_def ZERO_def)

declare skipWhitespace.simps [simp del]

definition isIdentifier :: "string \<Rightarrow> bool" where
  "isIdentifier v = (toLowerCase v \<noteq> toUpperCase v \<or> v = ''_'')"

text \<open>\<open>readValue(predicate)\<close> is called with two predicates, \<open>isIdentifier\<close> and
  \<open>isDigit\<close>; its loop is written once for each, the substring once for both.\<close>

function readWhileIdentifier :: "Lexer \<Rightarrow> Lexer" where
  "readWhileIdentifier l = (if isIdentifier (ch l) then readWhileIdentifier (readChar l) else l)"
  by pat_completeness auto
termination
  by (relation "measure (\<lambda>l. if isIdentifier (ch l)
                              then Suc (length (input l) - readPosition l) else 0)")
     (auto simp: readChar_def peakChar_def isIdentifier_def toLowerCase_def toUpperCase_def
                 ZERO_def)

declare readWhileIdentifier.simps [simp del]

function readWhileDigit :: "Lexer \<Rightarrow> Lexer" where
  "readWhileDigit l = (if isDigit (ch l) then readWhileDigit (readChar l) else l)"
  by pat_completeness auto
termination
  by (relation "measure (\<lambda>l. if isDigit (ch l)
                              then Suc (length (input l) - readPosition l) else 0)")
     (auto simp: readChar_def peakChar_def isDigit_def ZERO_def)

declare readWhileDigit.simps [simp del]

definition readValue :: "(Lexer \<Rightarrow> Lexer) \<Rightarrow> Lexer \<Rightarrow> string \<times> Lexer" where
  "readValue loop l =
    (let currentPosition = position l;
         l' = loop l
     in (substring (input l') currentPosition (position l'), l'))"

definition readIdentifier :: "Lexer \<Rightarrow> string \<times> Lexer" where
  "readIdentifier l = readValue readWhileIdentifier l"

definition readNumber :: "Lexer \<Rightarrow> string \<times> Lexer" where
  "readNumber l = readValue readWhileDigit l"

function readStringLoop :: "Lexer \<Rightarrow> Lexer" where
  "readStringLoop l =
    (let l' = readChar l
     in if ch l' = [CHR 0x22] \<or> ch l' = ZERO then l' else readStringLoop l')"
  by pat_completeness auto
termination
  by (relation "measure (\<lambda>l. length (input l) - readPosition l)")
     (auto simp: readChar_def peakChar_def ZERO_def split: if_splits)

declare readStringLoop.simps [simp del]

definition readString :: "Lexer \<Rightarrow> string \<times> Lexer" where
  "readString l =
    (let start = position l + 1;
         l' = readStringLoop l
     in (substring (input l') start (position l'), l'))"

definition nextToken :: "Lexer \<Rightarrow> Token \<times> Lexer" where
  "nextToken l0 =
    (let l = skipWhitespace l0;
         single = (\<lambda>tt. (token tt l, readChar l))
     in
     if ch l = ''='' then (case endsWithEqual ASSIGN EQ True l of (t, l') \<Rightarrow> (t, readChar l'))
     else if ch l = ''!'' then
       (case endsWithEqual BANG NOT_EQ False l of (t, l') \<Rightarrow> (t, readChar l'))
     else if ch l = '';'' then single SEMICOLON
     else if ch l = '':'' then single COLON
     else if ch l = '','' then single COMMA
     else if ch l = ''('' then single LPAREN
     else if ch l = '')'' then single RPAREN
     else if ch l = ''{'' then single LBRACE
     else if ch l = ''}'' then single RBRACE
     else if ch l = ''['' then single LBRACKET
     else if ch l = '']'' then single RBRACKET
     else if ch l = ''+'' then single PLUS
     else if ch l = ''-'' then single MINUS
     else if ch l = ''*'' then single ASTERISK
     else if ch l = ''/'' then single SLASH
     else if ch l = ''<'' then single LT
     else if ch l = ''>'' then single GT
     else if ch l = [CHR 0x22] then
       (case readString l of (s, l') \<Rightarrow> (Token STRING s, readChar l'))
     else if ch l = ZERO then (Token EOF '''', readChar l)
     else if isIdentifier (ch l) then
       (case readIdentifier l of (identifier, l') \<Rightarrow> (Token (lookupIdent identifier) identifier, l'))
     else if isDigit (ch l) then
       (case readNumber l of (digits, l') \<Rightarrow> (Token INT_T digits, l'))
     else (Token ILLEGAL (ch l), l))"

text \<open>The lexer after \<open>k\<close> calls of \<open>nextToken\<close> on a fresh lexer for \<open>inp\<close>.\<close>

primrec lexerAfter :: "string \<Rightarrow> nat \<Rightarrow> Lexer" where
  "lexerAfter inp 0 = newLexer inp"
| "lexerAfter inp (Suc k) = snd (nextToken (lexerAfter inp k))"

text \<open>What every lexer built by the constructor and advanced by \<open>nextToken\<close> satisfies:
  \<open>readPosition\<close> is one past \<open>position\<close>, and \<open>ch\<close> is the character at
  \<open>position\<close>, or \<open>ZERO\<close> past the end.\<close>

definition wellFormed :: "Lexer \<Rightarrow> bool" where
  "wellFormed l =
    (readPosition l = position l + 1 \<and>
     ch l = (if position l < length (input l) then [input l ! position l] else ZERO))"

section \<open>Numbers\<close>

text \<open>
  A JavaScript \<open>number\<close> is an IEEE-754 double. It is carried here as an exact
  rational or one of the three values that are not finite. The arithmetic below is that
  of the doubles wherever the exact result is a double (all integers up to \<open>2\<^sup>5\<^sup>3\<close> in
  magnitude, and quotients such as \<open>7 / 2\<close>). Left out are the rounding of a result
  that is not a double (\<open>1 / 3\<close>, integers beyond \<open>2\<^sup>5\<^sup>3\<close>, also in \<open>parseInt\<close>),
  the overflow to an infinity, and the sign of zero.
\<close>

datatype number = Fin rat | PosInfinity | NegInfinity | NaN

definition isNaN :: "number \<Rightarrow> bool" where
  "isNaN x = (x = NaN)"

definition digitValue :: "char \<Rightarrow> nat" where
  "digitValue c = of_char c - 48"

text \<open>\<open>parseInt\<close> on the literal of an \<open>INT\<close> token, a run of decimal digits: the value
  of the leading digits, \<open>NaN\<close> when there is none.\<close>

definition parseInt :: "string \<Rightarrow> number" where
  "parseInt s =
    (let ds = takeWhile (\<lambda>c. c \<in> set ''0123456789'') s
     in if ds = [] then NaN
        else Fin (of_nat (foldl (\<lambda>acc c. acc * 10 + digitValue c) 0 ds)))"

section \<open>Syntax trees (ast.ts)\<close>

text \<open>
  Every class of \<open>ast.ts\<close> is a constructor; a field of type \<open>T | null\<close> is an
  option. \<open>Identifier\<close> and \<open>BlockStatement\<close> are types of their own because fields are
  declared with them (\<open>LetStatement.name\<close>, \<open>FunctionLiteral.parameters\<close>,
  \<open>IfExpression.consequence\<close>); \<open>IdentifierNode\<close> and \<open>BlockNode\<close> are those
  classes where a \<open>Node\<close> is expected. The pairs of a \<open>HashLiteral\<close> are a \<open>Map\<close>
  keyed by node objects, so no two keys coincide: a list in insertion order.
\<close>

datatype Identifier = Identifier (identToken: Token) (identValue: string)

datatype Node =
    IdentifierNode Identifier
  | StringLiteral Token string
  | LetStatement Token Identifier "Node option"
  | ExpressionStatement Token "Node option"
  | ReturnStatement Token "Node option"
  | IntegerLiteral Token number
  | BooleanLiteral Token bool
  | PrefixExpression Token string "Node option"
  | InfixExpression Token "Node option" string "Node option"
  | CallExpression Token "Node option" "Node option list option"
  | ArrayLiteral Token "Node option list option"
  | IndexExpression Token "Node option" "Node option"
  | BlockNode BlockStatement
  | IfExpression Token "Node option" "BlockStatement option" "BlockStatement option"
  | FunctionLiteral Token "Identifier list option" "BlockStatement option" string
  | HashLiteral Token "(Node \<times> Node) list"
and BlockStatement =
    BlockStatement Token "Node option list option"

datatype Program = Program (statements: "Node list")

text \<open>\<open>Array.prototype.join\<close> on strings already rendered.\<close>

fun join :: "string \<Rightarrow> string list \<Rightarrow> string" where
  "join sep [] = []"
| "join sep [x] = x"
| "join sep (x # y # ys) = x @ sep @ join sep (y # ys)"

text \<open>
  \<open>toString\<close>. A template literal renders \<open>null\<close> as \<open>null\<close>, an optional chain on
  \<open>null\<close> gives \<open>undefined\<close>, and \<open>join\<close> renders a \<open>null\<close> element as the empty
  string. \<open>HashLiteral\<close> declares no \<open>toString\<close> and inherits that of \<open>Object\<close>.
\<close>

fun toString :: "Node \<Rightarrow> string"
  and blockToString :: "BlockStatement \<Rightarrow> string" where
  "toString (IdentifierNode i) = identValue i"
| "toString (StringLiteral t v) = v"
| "toString (LetStatement t name v) =
     literal t @ '' '' @ identValue name @ '' = '' @
     (case v of None \<Rightarrow> '''' | Some e \<Rightarrow> toString e)"
| "toString (ExpressionStatement t expression) =
     (case expression of None \<Rightarrow> '''' | Some e \<Rightarrow> toString e)"
| "toString (ReturnStatement t returnValue) =
     literal t @ '' '' @ (case returnValue of None \<Rightarrow> '''' | Some e \<Rightarrow> toString e)"
| "toString (IntegerLiteral t v) = literal t"
| "toString (BooleanLiteral t v) = literal t"
| "toString (PrefixExpression t operator right) =
     ''('' @ operator @ (case right of None \<Rightarrow> ''null'' | Some e \<Rightarrow> toString e) @ '')''"
| "toString (InfixExpression t left operator right) =
     ''('' @ (case left of None \<Rightarrow> ''null'' | Some e \<Rightarrow> toString e) @ '' '' @ operator @
     '' '' @ (case right of None \<Rightarrow> ''null'' | Some e \<Rightarrow> toString e) @ '')''"
| "toString (CallExpression t fn args) =
     (case fn of None \<Rightarrow> ''undefined'' | Some e \<Rightarrow> toString e) @ ''('' @
     (case args of
        None \<Rightarrow> ''undefined''
      | Some as \<Rightarrow> join '', '' (map (\<lambda>a. case a of None \<Rightarrow> '''' | Some e \<Rightarrow> toString e) as)) @
     '')''"
| "toString (ArrayLiteral t elements) =
     ''['' @
     (case elements of
        None \<Rightarrow> ''undefined''
      | Some es \<Rightarrow> join '', '' (map (\<lambda>a. case a of None \<Rightarrow> '''' | Some e \<Rightarrow> toString e) es)) @
     '']''"
| "toString (IndexExpression t left index) =
     ''('' @ (case left of None \<Rightarrow> ''undefined'' | Some e \<Rightarrow> toString e) @ ''['' @
     (case index of None \<Rightarrow> ''undefined'' | Some e \<Rightarrow> toString e) @ ''])''"
| "toString (BlockNode b) = blockToString b"
| "toString (IfExpression t condition consequence alternative) =
     ''if '' @ (case condition of None \<Rightarrow> ''null'' | Some e \<Rightarrow> toString e) @ '' '' @
     (case consequence of None \<Rightarrow> ''null'' | Some b \<Rightarrow> blockToString b) @ '' '' @
     (case alternative of None \<Rightarrow> '''' | Some b \<Rightarrow> ''else '' @ blockToString b)"
| "toString (FunctionLiteral t parameters body name) =
     literal t @ (if length name \<noteq> 0 then ''<'' @ name @ ''>'' else '''') @ ''('' @
     (case parameters of None \<Rightarrow> ''undefined'' | Some ps \<Rightarrow> join '''' (map identValue ps)) @
     '') '' @ (case body of None \<Rightarrow> ''null'' | Some b \<Rightarrow> blockToString b)"
| "toString (HashLiteral t pairs) = ''[object Object]''"
| "blockToString (BlockStatement t stmts) =
     (case stmts of
        None \<Rightarrow> ''''
      | Some ss \<Rightarrow> join '''' (map (\<lambda>a. case a of None \<Rightarrow> '''' | Some e \<Rightarrow> toString e) ss))"

definition programToString :: "Program \<Rightarrow> string" where
  "programToString p = join '''' (map toString (statements p))"

section \<open>Outcomes of a call\<close>

text \<open>
  A call of the parser or of the evaluator returns a value and the state it leaves,
  or throws a JavaScript exception, or does neither: \<open>Exhausted\<close> is a call whose
  recursion or loops go beyond the bound \<open>n\<close> given as first argument to the recursive
  functions below.
\<close>

datatype ('a, 's) Outcome = Return 'a 's | Throw string 's | Exhausted

definition andThen ::
  "('a, 's) Outcome \<Rightarrow> ('a \<Rightarrow> 's \<Rightarrow> ('b, 's) Outcome) \<Rightarrow> ('b, 's) Outcome" where
  "andThen r f =
    (case r of Return x s \<Rightarrow> f x s | Throw e s \<Rightarrow> Throw e s | Exhausted \<Rightarrow> Exhausted)"

section \<open>Parser (parser.ts)\<close>

datatype Precedence = LOWEST | EQUALS | LESS_GREATER | SUM_P | PRODUCT | PREFIX | CALL | INDEX

text \<open>The numeric value of the enum member, which \<open><\<close> compares.\<close>

fun ordinal :: "Precedence \<Rightarrow> nat" where
  "ordinal LOWEST = 0"
| "ordinal EQUALS = 1"
| "ordinal LESS_GREATER = 2"
| "ordinal SUM_P = 3"
| "ordinal PRODUCT = 4"
| "ordinal PREFIX = 5"
| "ordinal CALL = 6"
| "ordinal INDEX = 7"

record Parser =
  lexer :: Lexer
  curToken :: Token
  peekToken :: Token
  errors :: "string list"

type_synonym 'a Parsed = "('a, Parser) Outcome"

text \<open>\<open>Parser.nextToken\<close>.\<close>

definition advance :: "Parser \<Rightarrow> Parser" where
  "advance p =
    (case nextToken (lexer p) of
       (t, l') \<Rightarrow> p\<lparr>curToken := peekToken p, peekToken := t, lexer := l'\<rparr>)"

definition newParser :: "Lexer \<Rightarrow> Parser" where
  "newParser l =
    advance (advance \<lparr>lexer = l, curToken = Token ILLEGAL '''',
                      peekToken = Token ILLEGAL '''', errors = []\<rparr>)"

definition precedences :: "(TokenType \<times> Precedence) list" where
  "precedences =
    [(EQ, EQUALS), (NOT_EQ, EQUALS), (LT, LESS_GREATER), (GT, LESS_GREATER),
     (PLUS, SUM_P), (MINUS, SUM_P), (SLASH, PRODUCT), (ASTERISK, PRODUCT),
     (LPAREN, CALL), (LBRACKET, INDEX)]"

definition findPrecedence :: "TokenType \<Rightarrow> Precedence" where
  "findPrecedence tt = (case map_of precedences tt of None \<Rightarrow> LOWEST | Some pre \<Rightarrow> pre)"

definition peekPrecedence :: "Parser \<Rightarrow> Precedence" where
  "peekPrecedence p = findPrecedence (tokenType (peekToken p))"

definition curPrecedence :: "Parser \<Rightarrow> Precedence" where
  "curPrecedence p = findPrecedence (tokenType (curToken p))"

definition peekTokenIs :: "TokenType \<Rightarrow> Parser \<Rightarrow> bool" where
  "peekTokenIs tt p = (tokenType (peekToken p) = tt)"

definition curTokenIs :: "TokenType \<Rightarrow> Parser \<Rightarrow> bool" where
  "curTokenIs tt p = (tokenType (curToken p) = tt)"

definition peekError :: "TokenType \<Rightarrow> Parser \<Rightarrow> Parser" where
  "peekError tt p =
    p\<lparr>errors := errors p @
       [''Expected next token to be '' @ tokenTypeText tt @ '', got '' @
        tokenTypeText (tokenType (peekToken p)) @ '' instead'']\<rparr>"

definition noPrefixParserError :: "TokenType \<Rightarrow> Parser \<Rightarrow> Parser" where
  "noPrefixParserError tt p =
    p\<lparr>errors := errors p @ [''No prefix parser for '' @ tokenTypeText tt @ '' function'']\<rparr>"

definition expectPeek :: "TokenType \<Rightarrow> Parser \<Rightarrow> bool \<times> Parser" where
  "expectPeek tt p = (if peekTokenIs tt p then (True, advance p) else (False, peekError tt p))"

subsection \<open>Prefix parsers that do not recurse\<close>

definition parseIntegerLiteral :: "Parser \<Rightarrow> Node option Parsed" where
  "parseIntegerLiteral p =
    (let t = curToken p; v = parseInt (literal t)
     in if isNaN v then
          Return None (p\<lparr>errors := errors p @
            [''could not parse '' @ literal t @ '' as integer'']\<rparr>)
        else Return (Some (IntegerLiteral t v)) p)"

definition parseBooleanLiteral :: "Parser \<Rightarrow> Node option Parsed" where
  "parseBooleanLiteral p = Return (Some (BooleanLiteral (curToken p) (curTokenIs TRUE p))) p"

definition parseIdentifier :: "Parser \<Rightarrow> Node option Parsed" where
  "parseIdentifier p =
    Return (Some (IdentifierNode (Identifier (curToken p) (literal (curToken p))))) p"

definition parseStringLiteral :: "Parser \<Rightarrow> Node option Parsed" where
  "parseStringLiteral p = Return (Some (StringLiteral (curToken p) (literal (curToken p)))) p"

subsection \<open>The recursive descent\<close>

text \<open>
  The parsers below call \<open>parseExpression\<close>, which calls them back. Each takes the
  \<open>parseExpression\<close> it calls as its argument \<open>pe\<close>; \<open>parseExpression\<close> closes the
  recursion at the end. A \<open>while\<close> loop is a function of its own, named after the
  method, with the bound on its iterations as first argument.
\<close>

type_synonym ExprParser = "Precedence \<Rightarrow> Parser \<Rightarrow> Node option Parsed"

definition parsePrefixExpression :: "ExprParser \<Rightarrow> Parser \<Rightarrow> Node option Parsed" where
  "parsePrefixExpression pe p =
    (let t = curToken p; operator = literal t
     in andThen (pe PREFIX (advance p))
          (\<lambda>right p'. Return (Some (PrefixExpression t operator right)) p'))"

definition parseGroupExpression :: "ExprParser \<Rightarrow> Parser \<Rightarrow> Node option Parsed" where
  "parseGroupExpression pe p =
    andThen (pe LOWEST (advance p))
      (\<lambda>exp p'. case expectPeek RPAREN p' of
                   (False, p'') \<Rightarrow> Return None p''
                 | (True, p'') \<Rightarrow> Return exp p'')"

primrec parseExpressionListLoop ::
  "nat \<Rightarrow> ExprParser \<Rightarrow> Node option list \<Rightarrow> Parser \<Rightarrow> Node option list Parsed" where
  "parseExpressionListLoop 0 pe args p = Exhausted"
| "parseExpressionListLoop (Suc n) pe args p =
    (if peekTokenIs COMMA p then
       andThen (pe LOWEST (advance (advance p)))
         (\<lambda>e p'. parseExpressionListLoop n pe (args @ [e]) p')
     else Return args p)"

definition parseExpressionList ::
  "nat \<Rightarrow> ExprParser \<Rightarrow> TokenType \<Rightarrow> Parser \<Rightarrow> Node option list option Parsed" where
  "parseExpressionList n pe end p =
    (if peekTokenIs end p then Return (Some []) (advance p)
     else
       andThen (pe LOWEST (advance p)) (\<lambda>e p'.
       andThen (parseExpressionListLoop n pe [e] p') (\<lambda>args p''.
         case expectPeek end p'' of
           (False, q) \<Rightarrow> Return None q
         | (True, q) \<Rightarrow> Return (Some args) q)))"

definition parseArrayLiteral :: "nat \<Rightarrow> ExprParser \<Rightarrow> Parser \<Rightarrow> Node option Parsed" where
  "parseArrayLiteral n pe p =
    (let t = curToken p
     in andThen (parseExpressionList n pe RBRACKET p)
          (\<lambda>elements p'. Return (Some (ArrayLiteral t elements)) p'))"

primrec parseReturnStatementLoop :: "nat \<Rightarrow> Parser \<Rightarrow> unit Parsed" where
  "parseReturnStatementLoop 0 p = Exhausted"
| "parseReturnStatementLoop (Suc n) p =
    (if peekTokenIs SEMICOLON p then parseReturnStatementLoop n (advance p) else Return () p)"

definition parseReturnStatement :: "nat \<Rightarrow> ExprParser \<Rightarrow> Parser \<Rightarrow> Node option Parsed" where
  "parseReturnStatement n pe p =
    (let t = curToken p
     in andThen (pe LOWEST (advance p)) (\<lambda>returnValue p'.
        andThen (parseReturnStatementLoop n p') (\<lambda>_ p''.
          Return (Some (ReturnStatement t returnValue)) p'')))"

definition parseLetStatement :: "ExprParser \<Rightarrow> Parser \<Rightarrow> Node option Parsed" where
  "parseLetStatement pe p =
    (let t = curToken p
     in case expectPeek IDENT p of
          (False, p1) \<Rightarrow> Return None p1
        | (True, p1) \<Rightarrow>
            (let name = Identifier (curToken p1) (literal (curToken p1))
             in case expectPeek ASSIGN p1 of
                  (False, p2) \<Rightarrow> Return None p2
                | (True, p2) \<Rightarrow>
                    andThen (pe LOWEST (advance p2)) (\<lambda>v p3.
                      Return (Some (LetStatement t name v))
                        (if peekTokenIs SEMICOLON p3 then advance p3 else p3))))"

definition parseExpressionStatement :: "ExprParser \<Rightarrow> Parser \<Rightarrow> Node option Parsed" where
  "parseExpressionStatement pe p =
    (let t = curToken p
     in andThen (pe LOWEST p) (\<lambda>expression p'.
          Return (Some (ExpressionStatement t expression))
            (if peekTokenIs SEMICOLON p' then advance p' else p')))"

definition parseStatement :: "nat \<Rightarrow> ExprParser \<Rightarrow> Parser \<Rightarrow> Node option Parsed" where
  "parseStatement n pe p =
    (if tokenType (curToken p) = LET then parseLetStatement pe p
     else if tokenType (curToken p) = RETURN then parseReturnStatement n pe p
     else parseExpressionStatement pe p)"

primrec parseBlockStatementLoop ::
  "nat \<Rightarrow> ExprParser \<Rightarrow> Node option list \<Rightarrow> Parser \<Rightarrow> Node option list Parsed" where
  "parseBlockStatementLoop 0 pe stmts p = Exhausted"
| "parseBlockStatementLoop (Suc n) pe stmts p =
    (if \<not> curTokenIs RBRACE p \<and> \<not> curTokenIs EOF p then
       andThen (parseStatement n pe p) (\<lambda>statement p'.
         parseBlockStatementLoop n pe
           (if statement \<noteq> None then stmts @ [statement] else stmts) (advance p'))
     else Return stmts p)"

definition parseBlockStatement :: "nat \<Rightarrow> ExprParser \<Rightarrow> Parser \<Rightarrow> BlockStatement Parsed" where
  "parseBlockStatement n pe p =
    (let t = curToken p
     in andThen (parseBlockStatementLoop n pe [] (advance p))
          (\<lambda>stmts p'. Return (BlockStatement t (Some stmts)) p'))"

definition parseIfExpression :: "nat \<Rightarrow> ExprParser \<Rightarrow> Parser \<Rightarrow> Node option Parsed" where
  "parseIfExpression n pe p =
    (let t = curToken p
     in case expectPeek LPAREN p of
          (False, p1) \<Rightarrow> Return None p1
        | (True, p1) \<Rightarrow>
            andThen (pe LOWEST (advance p1)) (\<lambda>condition p2.
              case expectPeek RPAREN p2 of
                (False, p3) \<Rightarrow> Return None p3
              | (True, p3) \<Rightarrow>
                  (case expectPeek LBRACE p3 of
                     (False, p4) \<Rightarrow> Return None p4
                   | (True, p4) \<Rightarrow>
                       andThen (parseBlockStatement n pe p4) (\<lambda>consequence p5.
                         if peekTokenIs ELSE p5 then
                           (case expectPeek LBRACE (advance p5) of
                              (False, p6) \<Rightarrow> Return None p6
                            | (True, p6) \<Rightarrow>
                                andThen (parseBlockStatement n pe p6) (\<lambda>alternative p7.
                                  Return (Some (IfExpression t condition (Some consequence)
                                                  (Some alternative))) p7))
                         else
                           Return (Some (IfExpression t condition (Some consequence) None))
                             p5))))"

primrec parseFunctionParametersLoop ::
  "nat \<Rightarrow> Identifier list \<Rightarrow> Parser \<Rightarrow> Identifier list Parsed" where
  "parseFunctionParametersLoop 0 parameters p = Exhausted"
| "parseFunctionParametersLoop (Suc n) parameters p =
    (if peekTokenIs COMMA p then
       (let p' = advance (advance p); innerToken = curToken p'
        in parseFunctionParametersLoop n
             (parameters @ [Identifier innerToken (literal innerToken)]) p')
     else Return parameters p)"

definition parseFunctionParameters :: "nat \<Rightarrow> Parser \<Rightarrow> Identifier list option Parsed" where
  "parseFunctionParameters n p =
    (if peekTokenIs RPAREN p then Return (Some []) (advance p)
     else
       (let p1 = advance p; t = curToken p1
        in andThen (parseFunctionParametersLoop n [Identifier t (literal t)] p1)
             (\<lambda>parameters p2.
                case expectPeek RPAREN p2 of
                  (False, p3) \<Rightarrow> Return None p3
                | (True, p3) \<Rightarrow> Return (Some parameters) p3)))"

definition parseFunctionLiteral :: "nat \<Rightarrow> ExprParser \<Rightarrow> Parser \<Rightarrow> Node option Parsed" where
  "parseFunctionLiteral n pe p =
    (let t = curToken p
     in case expectPeek LPAREN p of
          (False, p1) \<Rightarrow> Return None p1
        | (True, p1) \<Rightarrow>
            andThen (parseFunctionParameters n p1) (\<lambda>parameters p2.
              case expectPeek LBRACE p2 of
                (False, p3) \<Rightarrow> Return None p3
              | (True, p3) \<Rightarrow>
                  andThen (parseBlockStatement n pe p3) (\<lambda>body p4.
                    Return (Some (FunctionLiteral t parameters (Some body) '''')) p4)))"

text \<open>The loop of \<open>parseHashLiteral\<close>. Its result is \<open>None\<close> where the method returns
  \<open>null\<close> from inside the loop, and the pairs read so far where the loop ends.\<close>

primrec parseHashLiteralLoop ::
  "nat \<Rightarrow> ExprParser \<Rightarrow> (Node \<times> Node) list \<Rightarrow> Parser \<Rightarrow> (Node \<times> Node) list option Parsed"
  where
  "parseHashLiteralLoop 0 pe pairs p = Exhausted"
| "parseHashLiteralLoop (Suc n) pe pairs p =
    (if \<not> peekTokenIs RBRACE p then
       andThen (pe LOWEST (advance p)) (\<lambda>key p1.
         case expectPeek COLON p1 of
           (False, p2) \<Rightarrow> Return None p2
         | (True, p2) \<Rightarrow>
             andThen (pe LOWEST (advance p2)) (\<lambda>v p3.
               case (key, v) of
                 (Some k, Some w) \<Rightarrow>
                   (if \<not> peekTokenIs RBRACE p3 then
                      (case expectPeek COMMA p3 of
                         (False, p4) \<Rightarrow> Return None p4
                       | (True, p4) \<Rightarrow> parseHashLiteralLoop n pe (pairs @ [(k, w)]) p4)
                    else parseHashLiteralLoop n pe (pairs @ [(k, w)]) p3)
               | _ \<Rightarrow>
                   Throw (''key:'' @ (case key of None \<Rightarrow> ''null'' | Some k \<Rightarrow> toString k) @
                          '' or value:'' @
                          (case v of None \<Rightarrow> ''null'' | Some w \<Rightarrow> toString w) @
                          '' are null'') p3))
     else Return (Some pairs) p)"

definition parseHashLiteral :: "nat \<Rightarrow> ExprParser \<Rightarrow> Parser \<Rightarrow> Node option Parsed" where
  "parseHashLiteral n pe p =
    (let t = curToken p
     in andThen (parseHashLiteralLoop n pe [] p) (\<lambda>r p'.
          case r of
            None \<Rightarrow> Return None p'
          | Some pairs \<Rightarrow>
              (case expectPeek RBRACE p' of
                 (False, p'') \<Rightarrow> Return None p''
               | (True, p'') \<Rightarrow> Return (Some (HashLiteral t pairs)) p'')))"

definition parseInfixExpression ::
  "ExprParser \<Rightarrow> Node option \<Rightarrow> Parser \<Rightarrow> Node option Parsed" where
  "parseInfixExpression pe left p =
    (let t = curToken p; operator = literal t; precedence = curPrecedence p
     in andThen (pe precedence (advance p))
          (\<lambda>right p'. Return (Some (InfixExpression t left operator right)) p'))"

definition parseCallExpression ::
  "nat \<Rightarrow> ExprParser \<Rightarrow> Node option \<Rightarrow> Parser \<Rightarrow> Node option Parsed" where
  "parseCallExpression n pe expression p =
    (let t = curToken p
     in andThen (parseExpressionList n pe RPAREN p)
          (\<lambda>args p'. Return (Some (CallExpression t expression args)) p'))"

definition parseIndexExpression ::
  "ExprParser \<Rightarrow> Node option \<Rightarrow> Parser \<Rightarrow> Node option Parsed" where
  "parseIndexExpression pe left p =
    (let t = curToken p
     in andThen (pe LOWEST (advance p)) (\<lambda>index p'.
          case expectPeek RBRACKET p' of
            (False, p'') \<Rightarrow> Return None p''
          | (True, p'') \<Rightarrow> Return (Some (IndexExpression t left index)) p''))"

text \<open>The two dispatch tables, \<open>None\<close> where \<open>Map.get\<close> gives \<open>undefined\<close>.\<close>

definition prefixParsers ::
  "nat \<Rightarrow> ExprParser \<Rightarrow> TokenType \<Rightarrow> (Parser \<Rightarrow> Node option Parsed) option" where
  "prefixParsers n pe tt =
    map_of
      [(INT_T, parseIntegerLiteral),
       (TRUE, parseBooleanLiteral),
       (FALSE, parseBooleanLiteral),
       (IDENT, parseIdentifier),
       (BANG, parsePrefixExpression pe),
       (MINUS, parsePrefixExpression pe),
       (LPAREN, parseGroupExpression pe),
       (LBRACKET, parseArrayLiteral n pe),
       (IF, parseIfExpression n pe),
       (FUNCTION, parseFunctionLiteral n pe),
       (STRING, parseStringLiteral),
       (LBRACE, parseHashLiteral n pe)] tt"

definition infixParsers ::
  "nat \<Rightarrow> ExprParser \<Rightarrow> TokenType \<Rightarrow> (Node option \<Rightarrow> Parser \<Rightarrow> Node option Parsed) option"
  where
  "infixParsers n pe tt =
    map_of
      [(PLUS, parseInfixExpression pe),
       (MINUS, parseInfixExpression pe),
       (SLASH, parseInfixExpression pe),
       (ASTERISK, parseInfixExpression pe),
       (EQ, parseInfixExpression pe),
       (NOT_EQ, parseInfixExpression pe),
       (LT, parseInfixExpression pe),
       (GT, parseInfixExpression pe),
       (LPAREN, parseCallExpression n pe),
       (LBRACKET, parseIndexExpression pe)] tt"

text \<open>The \<open>while\<close> loop of \<open>parseExpression\<close>.\<close>

primrec parseExpressionLoop ::
  "nat \<Rightarrow> ExprParser \<Rightarrow> Precedence \<Rightarrow> Node option \<Rightarrow> Parser \<Rightarrow> Node option Parsed" where
  "parseExpressionLoop 0 pe precedence left p = Exhausted"
| "parseExpressionLoop (Suc n) pe precedence left p =
    (if \<not> peekTokenIs SEMICOLON p \<and> ordinal precedence < ordinal (peekPrecedence p) then
       (case infixParsers n pe (tokenType (peekToken p)) of
          None \<Rightarrow> Return left p
        | Some infixParser \<Rightarrow>
            andThen (infixParser left (advance p))
              (\<lambda>left' p'. parseExpressionLoop n pe precedence left' p'))
     else Return left p)"

primrec parseExpression :: "nat \<Rightarrow> ExprParser" where
  "parseExpression 0 precedence p = Exhausted"
| "parseExpression (Suc n) precedence p =
    (case prefixParsers n (parseExpression n) (tokenType (curToken p)) of
       None \<Rightarrow> Return None (noPrefixParserError (tokenType (curToken p)) p)
     | Some prefix \<Rightarrow>
         andThen (prefix p)
           (\<lambda>left p'. parseExpressionLoop n (parseExpression n) precedence left p'))"

primrec parseProgramLoop :: "nat \<Rightarrow> Node list \<Rightarrow> Parser \<Rightarrow> Program Parsed" where
  "parseProgramLoop 0 stmts p = Exhausted"
| "parseProgramLoop (Suc n) stmts p =
    (if tokenType (curToken p) \<noteq> EOF then
       andThen (parseStatement n (parseExpression n) p) (\<lambda>statement p'.
         parseProgramLoop n
           (case statement of None \<Rightarrow> stmts | Some s \<Rightarrow> stmts @ [s]) (advance p'))
     else Return (Program stmts) p)"

definition parseProgram :: "nat \<Rightarrow> Parser \<Rightarrow> Program Parsed" where
  "parseProgram n p = parseProgramLoop n [] p"

text \<open>What the tests and the REPL do with a source text: a lexer, a parser on it,
  \<open>parseProgram\<close>.\<close>

definition parse :: "nat \<Rightarrow> string \<Rightarrow> Program Parsed" where
  "parse n source = parseProgram n (newParser (newLexer source))"

section \<open>Arithmetic of numbers\<close>

text \<open>The operators \<open>-x\<close>, \<open>+\<close>, \<open>-\<close>, \<open>*\<close>, \<open>/\<close>, \<open><\<close>, \<open>>\<close>, \<open>===\<close> on numbers:
  exact on finite values, and as IEEE-754 has them on the infinities and \<open>NaN\<close>. A
  finite non-zero value divided by zero is an infinity, zero by zero is \<open>NaN\<close>.\<close>

fun numNeg :: "number \<Rightarrow> number" where
  "numNeg (Fin a) = Fin (- a)"
| "numNeg PosInfinity = NegInfinity"
| "numNeg NegInfinity = PosInfinity"
| "numNeg NaN = NaN"

fun numAdd :: "number \<Rightarrow> number \<Rightarrow> number" where
  "numAdd (Fin a) (Fin b) = Fin (a + b)"
| "numAdd NaN y = NaN"
| "numAdd x NaN = NaN"
| "numAdd PosInfinity NegInfinity = NaN"
| "numAdd NegInfinity PosInfinity = NaN"
| "numAdd PosInfinity y = PosInfinity"
| "numAdd NegInfinity y = NegInfinity"
| "numAdd x PosInfinity = PosInfinity"
| "numAdd x NegInfinity = NegInfinity"

definition numSub :: "number \<Rightarrow> number \<Rightarrow> number" where
  "numSub x y = numAdd x (numNeg y)"

text \<open>The sign of a number that is not \<open>NaN\<close>: \<open>1\<close>, \<open>0\<close> or \<open>-1\<close>.\<close>

fun signOf :: "number \<Rightarrow> int" where
  "signOf (Fin a) = (if a > 0 then 1 else if a < 0 then -1 else 0)"
| "signOf PosInfinity = 1"
| "signOf NegInfinity = -1"
| "signOf NaN = 0"

definition infinityOfSign :: "int \<Rightarrow> number" where
  "infinityOfSign sg = (if sg > 0 then PosInfinity else if sg < 0 then NegInfinity else NaN)"

fun numMul :: "number \<Rightarrow> number \<Rightarrow> number" where
  "numMul (Fin a) (Fin b) = Fin (a * b)"
| "numMul NaN y = NaN"
| "numMul x NaN = NaN"
| "numMul x y = infinityOfSign (signOf x * signOf y)"

fun numDiv :: "number \<Rightarrow> number \<Rightarrow> number" where
  "numDiv (Fin a) (Fin b) = (if b = 0 then infinityOfSign (signOf (Fin a)) else Fin (a / b))"
| "numDiv NaN y = NaN"
| "numDiv x NaN = NaN"
| "numDiv (Fin a) y = Fin 0"
| "numDiv x (Fin b) = infinityOfSign (signOf x * (if b < 0 then -1 else 1))"
| "numDiv x y = NaN"

fun numLess :: "number \<Rightarrow> number \<Rightarrow> bool" where
  "numLess (Fin a) (Fin b) = (a < b)"
| "numLess NaN y = False"
| "numLess x NaN = False"
| "numLess x NegInfinity = False"
| "numLess PosInfinity y = False"
| "numLess x y = True"

definition numGreater :: "number \<Rightarrow> number \<Rightarrow> bool" where
  "numGreater x y = numLess y x"

definition numStrictEq :: "number \<Rightarrow> number \<Rightarrow> bool" where
  "numStrictEq x y = (x \<noteq> NaN \<and> x = y)"

section \<open>Objects (objects.ts)\<close>

text \<open>
  A value of type \<open>MObject | null\<close> is a reference to an object, or \<open>null\<close>; at run
  time it can also be \<open>undefined\<close> (an array read out of range, a missing argument).
  Objects have identity: an object is a cell of the list \<open>objects\<close> of the state, and
  its address is the reference. The \<open>elements\<close> of an \<open>MArray\<close> is a JavaScript array
  with an identity of its own, which two \<open>MArray\<close> objects can share; it is a cell of
  \<open>arrays\<close>. An \<open>Environment\<close> is a cell of \<open>environments\<close>.
\<close>

datatype Ref = Obj nat | Null | Undefined

text \<open>
  \<open>hashKey()\<close> is \<open>toString()\<close>: \<open>MInteger(value=5)\<close>, \<open>MBoolean(value=true)\<close>,
  \<open>MString(value=foo)\<close>. Two such strings are equal exactly when the class and the
  value are, which is what this type keeps of them.
\<close>

datatype HashKey = IntegerKey number | BooleanKey bool | StringKey string

datatype HashPair = HashPair (pairKey: Ref) (pairValue: Ref)

datatype Builtin = Len | Push | First | Last | Rest

datatype MObject =
    MInteger number
  | MBoolean bool
  | MString string
  | MReturnValue Ref
  | MError string
  | MNull
  | MFunction "Identifier list option" "BlockStatement option" nat
  | MArray nat
  | MHash "(HashKey \<times> HashPair) list"
  | MBuiltinFunction Builtin

record Environment =
  store :: "(string \<times> Ref) list"
  outer :: "nat option"

record State =
  objects :: "MObject list"
  arrays :: "Ref list list"
  environments :: "Environment list"

type_synonym 'a Eval = "('a, State) Outcome"

text \<open>\<open>new C(...)\<close>: a fresh cell at the end of the list.\<close>

definition new :: "MObject \<Rightarrow> State \<Rightarrow> Ref Eval" where
  "new ob s = Return (Obj (length (objects s))) (s\<lparr>objects := objects s @ [ob]\<rparr>)"

definition newArray :: "Ref list \<Rightarrow> State \<Rightarrow> nat \<times> State" where
  "newArray es s = (length (arrays s), s\<lparr>arrays := arrays s @ [es]\<rparr>)"

text \<open>The objects made when the modules load: \<open>TRUE\<close> and \<open>FALSE\<close> of
  \<open>evaluator.ts\<close>, \<open>M_NULL\<close> of \<open>objects.ts\<close> (\<open>NULL\<close> is the same object), and the
  five built-in functions.\<close>

definition M_TRUE :: Ref where "M_TRUE = Obj 0"
definition M_FALSE :: Ref where "M_FALSE = Obj 1"
definition M_NULL :: Ref where "M_NULL = Obj 2"

definition builtins :: "(string \<times> Ref) list" where
  "builtins =
    [(''len'', Obj 3), (''push'', Obj 4), (''first'', Obj 5), (''last'', Obj 6),
     (''rest'', Obj 7)]"

definition initialObjects :: "MObject list" where
  "initialObjects =
    [MBoolean True, MBoolean False, MNull,
     MBuiltinFunction Len, MBuiltinFunction Push, MBuiltinFunction First,
     MBuiltinFunction Last, MBuiltinFunction Rest]"

definition initialState :: State where
  "initialState = \<lparr>objects = initialObjects, arrays = [], environments = []\<rparr>"

definition typeDesc :: "State \<Rightarrow> Ref \<Rightarrow> string" where
  "typeDesc s r =
    (case r of
       Obj a \<Rightarrow>
         (case objects s ! a of
            MInteger _ \<Rightarrow> ''MInteger''
          | MBoolean _ \<Rightarrow> ''MBoolean''
          | MString _ \<Rightarrow> ''MString''
          | MReturnValue _ \<Rightarrow> ''MReturnValue''
          | MError _ \<Rightarrow> ''MError''
          | MNull \<Rightarrow> ''MNull''
          | MFunction _ _ _ \<Rightarrow> ''MFunction''
          | MArray _ \<Rightarrow> ''MArray''
          | MHash _ \<Rightarrow> ''MHash''
          | MBuiltinFunction _ \<Rightarrow> ''MBuiltinFunction'')
     | _ \<Rightarrow> ''null'')"

text \<open>\<open>x instanceof MValue\<close> with \<open>x.hashKey()\<close>: the key of an \<open>MInteger\<close>,
  \<open>MBoolean\<close> or \<open>MString\<close>, and \<open>None\<close> for anything else.\<close>

definition hashKey :: "State \<Rightarrow> Ref \<Rightarrow> HashKey option" where
  "hashKey s r =
    (case r of
       Obj a \<Rightarrow>
         (case objects s ! a of
            MInteger v \<Rightarrow> Some (IntegerKey v)
          | MBoolean b \<Rightarrow> Some (BooleanKey b)
          | MString str \<Rightarrow> Some (StringKey str)
          | _ \<Rightarrow> None)
     | _ \<Rightarrow> None)"

text \<open>The decimal digits of a length, for the messages that print one.\<close>

fun digits :: "nat \<Rightarrow> nat \<Rightarrow> string" where
  "digits 0 k = ''''"
| "digits (Suc n) k =
    (if k < 10 then [char_of (48 + k)] else digits n (k div 10) @ [char_of (48 + k mod 10)])"

definition natToString :: "nat \<Rightarrow> string" where
  "natToString k = digits (Suc k) k"

subsection \<open>Built-in functions\<close>

definition argSizeCheck ::
  "nat \<Rightarrow> Ref list \<Rightarrow> (Ref list \<Rightarrow> State \<Rightarrow> Ref Eval) \<Rightarrow> State \<Rightarrow> Ref Eval" where
  "argSizeCheck expectedSize args body s =
    (if length args \<noteq> expectedSize then
       new (MError (''wrong number of arguments. got='' @ natToString (length args) @
                    '', want='' @ natToString expectedSize)) s
     else body args s)"

text \<open>\<open>args[0]\<close> and any other read of a JavaScript array by index.\<close>

definition elementAt :: "Ref list \<Rightarrow> nat \<Rightarrow> Ref" where
  "elementAt xs i = (if i < length xs then xs ! i else Undefined)"

definition arrayCheck ::
  "string \<Rightarrow> Ref list \<Rightarrow> (nat \<Rightarrow> nat \<Rightarrow> State \<Rightarrow> Ref Eval) \<Rightarrow> State \<Rightarrow> Ref Eval" where
  "arrayCheck builtinName args body s =
    (let first = elementAt args 0;
         notArray = new (MError (''argument to '' @ [CHR 0x27] @ builtinName @ [CHR 0x27] @
                                 '' must be ARRAY, got '' @ typeDesc s first)) s
     in case first of
          Obj a \<Rightarrow>
            (case objects s ! a of
               MArray elements \<Rightarrow> body elements (length (arrays s ! elements)) s
             | _ \<Rightarrow> notArray)
        | _ \<Rightarrow> notArray)"

text \<open>The body of each built-in. In \<open>arrayCheck\<close> the array object is handed on as the
  address of its \<open>elements\<close>, the only field it has.\<close>

definition builtinLen :: "Ref list \<Rightarrow> State \<Rightarrow> Ref Eval" where
  "builtinLen args s =
    argSizeCheck 1 args (\<lambda>it s.
      (let arg = elementAt it 0;
           notSupported = new (MError (''argument to '' @ [CHR 0x27] @ ''len'' @ [CHR 0x27] @
                                       '' not supported, got '' @ typeDesc s arg)) s
       in case arg of
            Obj a \<Rightarrow>
              (case objects s ! a of
                 MString str \<Rightarrow> new (MInteger (Fin (of_nat (length str)))) s
               | MArray elements \<Rightarrow>
                   new (MInteger (Fin (of_nat (length (arrays s ! elements))))) s
               | _ \<Rightarrow> notSupported)
          | _ \<Rightarrow> notSupported)) s"

definition builtinPush :: "Ref list \<Rightarrow> State \<Rightarrow> Ref Eval" where
  "builtinPush args s =
    argSizeCheck 2 args (\<lambda>it s.
      arrayCheck ''push'' it (\<lambda>elements n s.
        new (MArray elements)
          (s\<lparr>arrays := (arrays s)[elements := arrays s ! elements @ [elementAt args 1]]\<rparr>)) s) s"

definition builtinFirst :: "Ref list \<Rightarrow> State \<Rightarrow> Ref Eval" where
  "builtinFirst args s =
    argSizeCheck 1 args (\<lambda>it s.
      arrayCheck ''first'' it (\<lambda>elements n s.
        if n > 0 then Return (elementAt (arrays s ! elements) 0) s else Return M_NULL s) s) s"

definition builtinLast :: "Ref list \<Rightarrow> State \<Rightarrow> Ref Eval" where
  "builtinLast args s =
    argSizeCheck 1 args (\<lambda>it s.
      arrayCheck ''last'' it (\<lambda>elements n s.
        if n > 0 then Return (elementAt (arrays s ! elements) (n - 1)) s else Return M_NULL s) s) s"

definition builtinRest :: "Ref list \<Rightarrow> State \<Rightarrow> Ref Eval" where
  "builtinRest args s =
    argSizeCheck 1 args (\<lambda>it s.
      arrayCheck ''rest'' it (\<lambda>elements n s.
        if n > 0 then
          (case newArray (drop 1 (arrays s ! elements)) s of
             (sliced, s') \<Rightarrow> new (MArray sliced) s')
        else Return M_NULL s) s) s"

fun builtinFn :: "Builtin \<Rightarrow> Ref list \<Rightarrow> State \<Rightarrow> Ref Eval" where
  "builtinFn Len = builtinLen"
| "builtinFn Push = builtinPush"
| "builtinFn First = builtinFirst"
| "builtinFn Last = builtinLast"
| "builtinFn Rest = builtinRest"

section \<open>Evaluator (evaluator.ts)\<close>

subsection \<open>Environments\<close>

definition newEnvironment :: "State \<Rightarrow> nat \<times> State" where
  "newEnvironment s =
    (length (environments s),
     s\<lparr>environments := environments s @ [\<lparr>store = [], outer = None\<rparr>]\<rparr>)"

definition newEnclosedEnvironment :: "nat \<Rightarrow> State \<Rightarrow> nat \<times> State" where
  "newEnclosedEnvironment out s =
    (length (environments s),
     s\<lparr>environments := environments s @ [\<lparr>store = [], outer = Some out\<rparr>]\<rparr>)"

text \<open>\<open>Environment.set\<close> and \<open>put\<close>.\<close>

definition envSet :: "nat \<Rightarrow> string \<Rightarrow> Ref \<Rightarrow> State \<Rightarrow> State" where
  "envSet e name v s =
    s\<lparr>environments := (environments s)
        [e := (environments s ! e)\<lparr>store := AList.update name v (store (environments s ! e))\<rparr>]\<rparr>"

definition envPut :: "nat \<Rightarrow> string \<Rightarrow> Ref \<Rightarrow> State \<Rightarrow> Ref Eval" where
  "envPut e name v s = Return v (envSet e name v s)"

text \<open>\<open>Environment.get\<close> calls itself on the outer environment; \<open>None\<close> is a chain
  longer than the bound. \<open>Map.get\<close> gives \<open>undefined\<close> for a missing name, and for a
  name bound to \<open>undefined\<close>.\<close>

primrec envGet :: "nat \<Rightarrow> Environment list \<Rightarrow> nat \<Rightarrow> string \<Rightarrow> Ref option" where
  "envGet 0 envs e name = None"
| "envGet (Suc n) envs e name =
    (let obj = (case map_of (store (envs ! e)) name of None \<Rightarrow> Undefined | Some v \<Rightarrow> v)
     in case outer (envs ! e) of
          Some out \<Rightarrow>
            if obj = Undefined then envGet n envs out name else Some obj
        | None \<Rightarrow> if obj \<noteq> Undefined then Some obj else Some Null)"

subsection \<open>Tests of the class of an object\<close>

text \<open>\<open>x instanceof C\<close> together with the read of the fields of \<open>x\<close> that follows it:
  the fields when the reference is to an object of class \<open>C\<close>, \<open>None\<close> otherwise.\<close>

definition asInteger :: "State \<Rightarrow> Ref \<Rightarrow> number option" where
  "asInteger s r =
    (case r of Obj a \<Rightarrow> (case objects s ! a of MInteger v \<Rightarrow> Some v | _ \<Rightarrow> None) | _ \<Rightarrow> None)"

definition asString :: "State \<Rightarrow> Ref \<Rightarrow> string option" where
  "asString s r =
    (case r of Obj a \<Rightarrow> (case objects s ! a of MString v \<Rightarrow> Some v | _ \<Rightarrow> None) | _ \<Rightarrow> None)"

definition asReturnValue :: "State \<Rightarrow> Ref \<Rightarrow> Ref option" where
  "asReturnValue s r =
    (case r of
       Obj a \<Rightarrow> (case objects s ! a of MReturnValue v \<Rightarrow> Some v | _ \<Rightarrow> None)
     | _ \<Rightarrow> None)"

definition asArray :: "State \<Rightarrow> Ref \<Rightarrow> nat option" where
  "asArray s r =
    (case r of
       Obj a \<Rightarrow> (case objects s ! a of MArray elements \<Rightarrow> Some elements | _ \<Rightarrow> None)
     | _ \<Rightarrow> None)"

definition asHash :: "State \<Rightarrow> Ref \<Rightarrow> (HashKey \<times> HashPair) list option" where
  "asHash s r =
    (case r of
       Obj a \<Rightarrow> (case objects s ! a of MHash pairs \<Rightarrow> Some pairs | _ \<Rightarrow> None)
     | _ \<Rightarrow> None)"

definition isError :: "State \<Rightarrow> Ref \<Rightarrow> bool" where
  "isError s r =
    (case r of Obj a \<Rightarrow> (case objects s ! a of MError m \<Rightarrow> True | _ \<Rightarrow> False) | _ \<Rightarrow> False)"

definition ifNotError :: "Ref \<Rightarrow> (Ref \<Rightarrow> State \<Rightarrow> Ref Eval) \<Rightarrow> State \<Rightarrow> Ref Eval" where
  "ifNotError obj body s =
    (case obj of
       Obj a \<Rightarrow> if isError s obj then Return obj s else body obj s
     | _ \<Rightarrow> Return obj s)"

subsection \<open>Operators\<close>

definition evalBangOperatorExpression :: "Ref \<Rightarrow> Ref" where
  "evalBangOperatorExpression right =
    (if right = M_TRUE then M_FALSE
     else if right = M_FALSE then M_TRUE
     else if right = M_NULL then M_TRUE
     else M_FALSE)"

definition evalMinusPrefixOperatorExpression :: "Ref \<Rightarrow> State \<Rightarrow> Ref Eval" where
  "evalMinusPrefixOperatorExpression right s =
    (case asInteger s right of
       Some v \<Rightarrow> new (MInteger (numNeg v)) s
     | None \<Rightarrow> new (MError (''unknown operator: -'' @ typeDesc s right)) s)"

definition toMonkey :: "bool \<Rightarrow> Ref" where
  "toMonkey b = (if b then M_TRUE else M_FALSE)"

text \<open>\<open>evalIntegerInfixExpression\<close> on the values of its two \<open>MInteger\<close> operands,
  whose \<open>typeDesc\<close> is \<open>MInteger\<close>.\<close>

definition evalIntegerInfixExpression :: "string \<Rightarrow> number \<Rightarrow> number \<Rightarrow> State \<Rightarrow> Ref Eval" where
  "evalIntegerInfixExpression operator left right s =
    (if operator = ''+'' then new (MInteger (numAdd left right)) s
     else if operator = ''-'' then new (MInteger (numSub left right)) s
     else if operator = ''*'' then new (MInteger (numMul left right)) s
     else if operator = ''/'' then new (MInteger (numDiv left right)) s
     else if operator = ''<'' then Return (toMonkey (numLess left right)) s
     else if operator = ''>'' then Return (toMonkey (numGreater left right)) s
     else if operator = ''=='' then Return (toMonkey (numStrictEq left right)) s
     else if operator = ''!='' then Return (toMonkey (\<not> numStrictEq left right)) s
     else new (MError (''unknown operator: '' @ ''MInteger'' @ '' '' @ operator @ '' '' @
                       ''MInteger'')) s)"

definition evalInfixExpression :: "string \<Rightarrow> Ref \<Rightarrow> Ref \<Rightarrow> State \<Rightarrow> Ref Eval" where
  "evalInfixExpression operator left right s =
    (case (asInteger s left, asInteger s right) of
       (Some l, Some r) \<Rightarrow> evalIntegerInfixExpression operator l r s
     | _ \<Rightarrow>
        if operator = ''=='' then Return (toMonkey (left = right)) s
        else if operator = ''!='' then Return (toMonkey (left \<noteq> right)) s
        else if typeDesc s left \<noteq> typeDesc s right then
          new (MError (''type mismatch: '' @ typeDesc s left @ '' '' @ operator @ '' '' @
                       typeDesc s right)) s
        else
          (case (asString s left, asString s right, operator = ''+'') of
             (Some l, Some r, True) \<Rightarrow> new (MString (l @ r)) s
           | _ \<Rightarrow>
              new (MError (''unknown operator: '' @ typeDesc s left @ '' '' @ operator @ '' '' @
                           typeDesc s right)) s))"

subsection \<open>Blocks, argument lists, calls\<close>

text \<open>
  The functions below call \<open>evaluateNode\<close>, which calls them back; each takes the
  \<open>evaluateNode\<close> it calls as its argument \<open>ev\<close>, and \<open>evaluateNode\<close> closes the
  recursion. A \<open>for\<close> loop over a list is a function by recursion on the list.
\<close>

type_synonym Evaluator = "Node option \<Rightarrow> nat \<Rightarrow> State \<Rightarrow> Ref Eval"

primrec evalStatements ::
  "Evaluator \<Rightarrow> Node option list \<Rightarrow> nat \<Rightarrow> Ref \<Rightarrow> State \<Rightarrow> Ref Eval" where
  "evalStatements ev [] env result s = Return result s"
| "evalStatements ev (statement # rest) env result s =
    andThen (ev statement env s) (\<lambda>result' s'.
      if asReturnValue s' result' \<noteq> None \<or> isError s' result' then Return result' s'
      else evalStatements ev rest env result' s')"

definition evalBlockStatement :: "Evaluator \<Rightarrow> BlockStatement \<Rightarrow> nat \<Rightarrow> State \<Rightarrow> Ref Eval" where
  "evalBlockStatement ev node env s =
    (case node of
       BlockStatement t stmts \<Rightarrow>
         (case stmts of
            None \<Rightarrow> Return Null s
          | Some ss \<Rightarrow> evalStatements ev ss env Null s))"

primrec evalExpressionsLoop ::
  "Evaluator \<Rightarrow> Node option list \<Rightarrow> nat \<Rightarrow> Ref list \<Rightarrow> State \<Rightarrow> Ref list Eval" where
  "evalExpressionsLoop ev [] env evalList s = Return evalList s"
| "evalExpressionsLoop ev (argument # rest) env evalList s =
    andThen (ev argument env s) (\<lambda>evaluated s'.
      if isError s' evaluated then Return [evaluated] s'
      else evalExpressionsLoop ev rest env (evalList @ [evaluated]) s')"

text \<open>Iterating over \<open>null\<close> is a \<open>TypeError\<close>.\<close>

definition evalExpressions ::
  "Evaluator \<Rightarrow> Node option list option \<Rightarrow> nat \<Rightarrow> State \<Rightarrow> Ref list Eval" where
  "evalExpressions ev args env s =
    (case args of
       None \<Rightarrow> Throw ''TypeError'' s
     | Some as \<Rightarrow> evalExpressionsLoop ev as env [] s)"

definition extendFunctionEnv ::
  "Identifier list option \<Rightarrow> nat \<Rightarrow> Ref list \<Rightarrow> State \<Rightarrow> nat \<times> State" where
  "extendFunctionEnv parameters fenv args s =
    (case newEnclosedEnvironment fenv s of
       (env, s') \<Rightarrow>
         (case parameters of
            None \<Rightarrow> (env, s')
          | Some ps \<Rightarrow>
              (env,
               foldl (\<lambda>st (identifier, i). envSet env (identValue identifier) (elementAt args i) st)
                 s' (zip ps [0..<length ps]))))"

definition applyFunction :: "Evaluator \<Rightarrow> Ref \<Rightarrow> Ref list \<Rightarrow> State \<Rightarrow> Ref Eval" where
  "applyFunction ev fn args s =
    (let notFunction = new (MError (''not a function: '' @ typeDesc s fn)) s
     in case fn of
          Obj a \<Rightarrow>
            (case objects s ! a of
               MFunction parameters body fenv \<Rightarrow>
                 (case extendFunctionEnv parameters fenv args s of
                    (extendEnv, s1) \<Rightarrow>
                      andThen (ev (map_option BlockNode body) extendEnv s1) (\<lambda>evaluated s2.
                        case asReturnValue s2 evaluated of
                          Some v \<Rightarrow> Return v s2
                        | None \<Rightarrow> Return evaluated s2))
             | MBuiltinFunction b \<Rightarrow>
                 andThen (builtinFn b args s) (\<lambda>result s1.
                   if result = Null then Return M_NULL s1 else Return result s1)
             | _ \<Rightarrow> notFunction)
        | _ \<Rightarrow> notFunction)"

subsection \<open>Indexing and hash literals\<close>

text \<open>\<open>elements[i]\<close> for a number \<open>i\<close>: the element when \<open>i\<close> is an index of the array,
  \<open>undefined\<close> for any other number.\<close>

definition evalArrayIndexExpression :: "Ref list \<Rightarrow> number \<Rightarrow> Ref" where
  "evalArrayIndexExpression elements i =
    (let max = numSub (Fin (of_nat (length elements))) (Fin 1)
     in if numLess i (Fin 0) \<or> numGreater i max then M_NULL
        else (case i of
                Fin q \<Rightarrow>
                  if q = of_int \<lfloor>q\<rfloor> \<and> 0 \<le> q then elementAt elements (nat \<lfloor>q\<rfloor>)
                  else Undefined
              | _ \<Rightarrow> Undefined))"

definition evalHashIndexExpression ::
  "(HashKey \<times> HashPair) list \<Rightarrow> Ref \<Rightarrow> State \<Rightarrow> Ref Eval" where
  "evalHashIndexExpression pairs index s =
    (case hashKey s index of
       Some k \<Rightarrow>
         (case map_of pairs k of
            Some pair \<Rightarrow> Return (pairValue pair) s
          | None \<Rightarrow> Return M_NULL s)
     | None \<Rightarrow> new (MError (''unusable as a hash key: '' @ typeDesc s index)) s)"

text \<open>The loop of the \<open>HashLiteral\<close> case, and the \<open>new MHash(pairs)\<close> after it.\<close>

primrec evalHashLiteralPairs ::
  "Evaluator \<Rightarrow> (Node \<times> Node) list \<Rightarrow> nat \<Rightarrow> (HashKey \<times> HashPair) list \<Rightarrow> State \<Rightarrow> Ref Eval"
  where
  "evalHashLiteralPairs ev [] env pairs s = new (MHash pairs) s"
| "evalHashLiteralPairs ev (kv # rest) env pairs s =
    andThen (ev (Some (fst kv)) env s) (\<lambda>key s1.
      if isError s1 key then Return key s1
      else
        (case hashKey s1 key of
           Some k \<Rightarrow>
             andThen (ev (Some (snd kv)) env s1) (\<lambda>v s2.
               if isError s2 v then Return v s2
               else evalHashLiteralPairs ev rest env (AList.update k (HashPair key v) pairs) s2)
         | None \<Rightarrow> new (MError (''unusable as hash key: '' @ typeDesc s1 key)) s1))"

subsection \<open>\<open>evaluateNode\<close> and \<open>evaluate\<close>\<close>

definition isTruthy :: "Ref \<Rightarrow> bool" where
  "isTruthy condition =
    (if condition = M_NULL then False
     else if condition = M_TRUE then True
     else condition \<noteq> M_FALSE)"

text \<open>The first argument bounds the depth of the calls of \<open>evaluateNode\<close> inside one
  another (the call stack). A \<open>null\<close> node reaches the \<open>throw\<close> at the end.\<close>

primrec evaluateNode :: "nat \<Rightarrow> Evaluator" where
  "evaluateNode 0 node env s = Exhausted"
| "evaluateNode (Suc n) node env s =
    (case node of
       None \<Rightarrow> Throw ''undefined => undefined'' s
     | Some (IdentifierNode i) \<Rightarrow>
         (case envGet n (environments s) env (identValue i) of
            None \<Rightarrow> Exhausted
          | Some v \<Rightarrow>
              if v = Null then
                (case map_of builtins (identValue i) of
                   Some builtin \<Rightarrow> Return builtin s
                 | None \<Rightarrow> new (MError (''identifier not found: '' @ identValue i)) s)
              else Return v s)
     | Some (IntegerLiteral t v) \<Rightarrow> new (MInteger v) s
     | Some (InfixExpression t left operator right) \<Rightarrow>
         andThen (evaluateNode n left env s) (\<lambda>l s1.
           ifNotError l (\<lambda>left' s2.
             andThen (evaluateNode n right env s2) (\<lambda>r s3.
               ifNotError r (\<lambda>right' s4. evalInfixExpression operator left' right' s4) s3)) s1)
     | Some (BlockNode b) \<Rightarrow> evalBlockStatement (evaluateNode n) b env s
     | Some (ExpressionStatement t expression) \<Rightarrow> evaluateNode n expression env s
     | Some (IfExpression t condition consequence alternative) \<Rightarrow>
         andThen (evaluateNode n condition env s) (\<lambda>c s1.
           ifNotError c (\<lambda>condition' s2.
             if isTruthy condition' then
               evaluateNode n (map_option BlockNode consequence) env s2
             else
               (case alternative of
                  Some alt \<Rightarrow> evalBlockStatement (evaluateNode n) alt env s2
                | None \<Rightarrow> Return M_NULL s2)) s1)
     | Some (CallExpression t fn args) \<Rightarrow>
         andThen (evaluateNode n fn env s) (\<lambda>f s1.
           ifNotError f (\<lambda>fn' s2.
             andThen (evalExpressions (evaluateNode n) args env s2) (\<lambda>args' s3.
               if length args' = 1 \<and> isError s3 (elementAt args' 0) then
                 Return (elementAt args' 0) s3
               else applyFunction (evaluateNode n) fn' args' s3)) s1)
     | Some (ReturnStatement t returnValue) \<Rightarrow>
         andThen (evaluateNode n returnValue env s) (\<lambda>v s1.
           ifNotError v (\<lambda>value' s2. new (MReturnValue value') s2) s1)
     | Some (PrefixExpression t operator right) \<Rightarrow>
         andThen (evaluateNode n right env s) (\<lambda>r s1.
           ifNotError r (\<lambda>right' s2.
             if operator = ''!'' then Return (evalBangOperatorExpression right') s2
             else if operator = ''-'' then evalMinusPrefixOperatorExpression right' s2
             else new (MError (''Unknown operator: '' @ operator @ typeDesc s2 right')) s2) s1)
     | Some (BooleanLiteral t v) \<Rightarrow> Return (toMonkey v) s
     | Some (LetStatement t name v) \<Rightarrow>
         andThen (evaluateNode n v env s) (\<lambda>v' s1.
           ifNotError v' (\<lambda>value' s2. envPut env (identValue name) value' s2) s1)
     | Some (FunctionLiteral t parameters body name) \<Rightarrow> new (MFunction parameters body env) s
     | Some (StringLiteral t v) \<Rightarrow> new (MString v) s
     | Some (IndexExpression t left index) \<Rightarrow>
         andThen (evaluateNode n left env s) (\<lambda>left' s1.
           if isError s1 left' then Return left' s1
           else
             andThen (evaluateNode n index env s1) (\<lambda>index' s2.
               if isError s2 index' then Return index' s2
               else
                 (case (asArray s2 left', asInteger s2 index') of
                    (Some elements, Some i) \<Rightarrow>
                      Return (evalArrayIndexExpression (arrays s2 ! elements) i) s2
                  | _ \<Rightarrow>
                     (case asHash s2 left' of
                        Some pairs \<Rightarrow> evalHashIndexExpression pairs index' s2
                      | None \<Rightarrow>
                          new (MError (''index operator not supported: '' @
                                       typeDesc s2 left')) s2))))
     | Some (HashLiteral t pairs) \<Rightarrow> evalHashLiteralPairs (evaluateNode n) pairs env [] s
     | Some (ArrayLiteral t elements) \<Rightarrow>
         andThen (evalExpressions (evaluateNode n) elements env s) (\<lambda>elements' s1.
           if length elements' = 1 \<and> isError s1 (elementAt elements' 0) then
             Return (elementAt elements' 0) s1
           else
             (case newArray elements' s1 of
                (created, s2) \<Rightarrow> new (MArray created) s2)))"

text \<open>The loop of \<open>evaluate\<close>.\<close>

primrec evaluateStatements ::
  "Evaluator \<Rightarrow> Node list \<Rightarrow> nat \<Rightarrow> Ref \<Rightarrow> State \<Rightarrow> Ref Eval" where
  "evaluateStatements ev [] env result s = Return result s"
| "evaluateStatements ev (statement # rest) env result s =
    andThen (ev (Some statement) env s) (\<lambda>result' s'.
      case asReturnValue s' result' of
        Some v \<Rightarrow> Return v s'
      | None \<Rightarrow>
          if isError s' result' then Return result' s'
          else evaluateStatements ev rest env result' s')"

definition evaluate :: "nat \<Rightarrow> Program \<Rightarrow> nat \<Rightarrow> State \<Rightarrow> Ref Eval" where
  "evaluate n program env s = evaluateStatements (evaluateNode n) (statements program) env Null s"

text \<open>What the tests do with a source text: parse it, and evaluate the program in a
  fresh environment. The bound \<open>n\<close> serves both.\<close>

definition testEval :: "nat \<Rightarrow> string \<Rightarrow> Ref Eval" where
  "testEval n source =
    (case parse n source of
       Return program p \<Rightarrow>
         (case newEnvironment initialState of (env, s) \<Rightarrow> evaluate n program env s)
     | Throw e p \<Rightarrow> Throw e initialState
     | Exhausted \<Rightarrow> Exhausted)"

section \<open>Vocabulary of the theorems\<close>

text \<open>
  \<open>onlyAdds s s'\<close>: the objects of \<open>s'\<close> are those of \<open>s\<close>, at the same addresses,
  followed by objects none of which is an \<open>MBoolean\<close> or an \<open>MNull\<close>.
  \<open>canonical s\<close>: the only \<open>MBoolean\<close> and \<open>MNull\<close> objects of \<open>s\<close> are \<open>TRUE\<close>,
  \<open>FALSE\<close> and \<open>NULL\<close>, made when the modules load. \<open>keeps s m\<close>: the state in which
  the call \<open>m\<close> ends (by returning or by throwing) only adds to \<open>s\<close> in that way.
\<close>

definition isBooleanOrNull :: "MObject \<Rightarrow> bool" where
  "isBooleanOrNull ob = (case ob of MBoolean b \<Rightarrow> True | MNull \<Rightarrow> True | _ \<Rightarrow> False)"

definition onlyAdds :: "State \<Rightarrow> State \<Rightarrow> bool" where
  "onlyAdds s s' =
    (take (length (objects s)) (objects s') = objects s \<and>
     list_all (\<lambda>ob. \<not> isBooleanOrNull ob) (drop (length (objects s)) (objects s')))"

definition canonical :: "State \<Rightarrow> bool" where
  "canonical s =
    (take 3 (objects s) = [MBoolean True, MBoolean False, MNull] \<and>
     list_all (\<lambda>ob. \<not> isBooleanOrNull ob) (drop 3 (objects s)))"

definition keeps :: "State \<Rightarrow> 'a Eval \<Rightarrow> bool" where
  "keeps s m =
    (case m of Return r s' \<Rightarrow> onlyAdds s s' | Throw e s' \<Rightarrow> onlyAdds s s' | Exhausted \<Rightarrow> True)"

section \<open>The lexer returns, and returns EOF for ever at the end of the input\<close>

lemmas lexer_eval =
  newLexer_def readChar_def peakChar_def nextToken_def ZERO_def WHITE_SPACES_def
  isIdentifier_def isDigit_def toLowerCase_def toUpperCase_def lowerCaseOf_def
  upperCaseOf_def codeUnit_def readIdentifier_def
  readNumber_def readValue_def readString_def endsWithEqual_def token_def substring_def
  lookupIdent_def KEYWORDS_def objectPrototypeNames_def Let_def skipWhitespace.simps
  readWhileIdentifier.simps readWhileDigit.simps readStringLoop.simps

lemma readChar_wellFormed: "wellFormed (readChar l)"
  by (simp add: wellFormed_def readChar_def peakChar_def)

lemma readChar_input: "input (readChar l) = input l"
  by (simp add: readChar_def)

lemma skipWhitespace_keeps:
  "wellFormed l \<Longrightarrow> wellFormed (skipWhitespace l) \<and> input (skipWhitespace l) = input l"
proof (induction l rule: skipWhitespace.induct)
  case (1 l)
  show ?case
  proof (cases "ch l \<in> set WHITE_SPACES")
    case True
    with 1 show ?thesis
      by (simp add: readChar_wellFormed readChar_input skipWhitespace.simps [of l])
  next
    case False
    with 1 show ?thesis by (simp add: skipWhitespace.simps [of l])
  qed
qed

lemma readWhileIdentifier_keeps:
  "wellFormed l \<Longrightarrow>
   wellFormed (readWhileIdentifier l) \<and> input (readWhileIdentifier l) = input l"
proof (induction l rule: readWhileIdentifier.induct)
  case (1 l)
  show ?case
  proof (cases "isIdentifier (ch l)")
    case True
    with 1 show ?thesis
      by (simp add: readChar_wellFormed readChar_input readWhileIdentifier.simps [of l])
  next
    case False
    with 1 show ?thesis by (simp add: readWhileIdentifier.simps [of l])
  qed
qed

lemma readWhileDigit_keeps:
  "wellFormed l \<Longrightarrow> wellFormed (readWhileDigit l) \<and> input (readWhileDigit l) = input l"
proof (induction l rule: readWhileDigit.induct)
  case (1 l)
  show ?case
  proof (cases "isDigit (ch l)")
    case True
    with 1 show ?thesis
      by (simp add: readChar_wellFormed readChar_input readWhileDigit.simps [of l])
  next
    case False
    with 1 show ?thesis by (simp add: readWhileDigit.simps [of l])
  qed
qed

lemma readStringLoop_keeps:
  "wellFormed (readStringLoop l) \<and> input (readStringLoop l) = input l"
proof (induction l rule: readStringLoop.induct)
  case (1 l)
  show ?case
  proof (cases "ch (readChar l) = [CHR 0x22] \<or> ch (readChar l) = ZERO")
    case True
    then show ?thesis
      by (simp add: readChar_wellFormed readChar_input Let_def readStringLoop.simps [of l])
  next
    case False
    with 1 show ?thesis by (simp add: readChar_input Let_def readStringLoop.simps [of l])
  qed
qed

lemma nextToken_keeps:
  assumes "wellFormed l"
  shows "wellFormed (snd (nextToken l)) \<and> input (snd (nextToken l)) = input l"
proof -
  let ?m = "skipWhitespace l"
  have m: "wellFormed ?m" "input ?m = input l"
    using skipWhitespace_keeps [OF assms] by simp_all
  show ?thesis
    unfolding nextToken_def Let_def
    using m readWhileIdentifier_keeps [OF m(1)] readWhileDigit_keeps [OF m(1)]
      readStringLoop_keeps [of ?m]
    by (simp add: readChar_wellFormed readChar_input endsWithEqual_def readString_def
        readIdentifier_def readNumber_def readValue_def Let_def split: prod.splits)
qed

lemma nextToken_at_end:
  assumes "wellFormed l" "length (input l) \<le> position l"
  shows "nextToken l = (Token EOF '''', readChar l)"
proof -
  have z: "ch l = ZERO" using assms by (simp add: wellFormed_def)
  then have "skipWhitespace l = l"
    by (simp add: ZERO_def WHITE_SPACES_def skipWhitespace.simps [of l])
  then show ?thesis using z by (simp add: nextToken_def ZERO_def)
qed

lemma lexerAfter_keeps: "wellFormed (lexerAfter inp k) \<and> input (lexerAfter inp k) = inp"
proof (induction k)
  case 0
  show ?case by (simp add: newLexer_def readChar_wellFormed readChar_input)
next
  case (Suc k)
  then show ?case using nextToken_keeps [of "lexerAfter inp k"] by simp
qed

lemma lexerAfter_stays_at_end:
  "length inp \<le> position (lexerAfter inp n) \<Longrightarrow>
   length inp \<le> position (lexerAfter inp (n + k))"
proof (induction k)
  case 0
  then show ?case by simp
next
  case (Suc k)
  let ?l = "lexerAfter inp (n + k)"
  have "nextToken ?l = (Token EOF '''', readChar ?l)"
    using Suc lexerAfter_keeps [of inp "n + k"] by (intro nextToken_at_end) simp_all
  moreover have "readPosition ?l = position ?l + 1"
    using lexerAfter_keeps [of inp "n + k"] by (simp add: wellFormed_def)
  ultimately show ?case using Suc by (simp add: readChar_def)
qed

text \<open>
  Claim C7. \<open>nextToken\<close> is a total function of the lexer: its four loops
  (\<open>skipWhitespace\<close>, the two instances of \<open>readValue\<close>, \<open>readString\<close>) terminate on
  every lexer, as their termination proofs above show, and no path of it throws. Once
  \<open>n\<close> calls have moved the position to the end of the input, the call after any
  further \<open>k\<close> calls returns the token \<open>(EOF, "")\<close>.
\<close>

theorem nextToken_EOF_indefinitely:
  "length inp \<le> position (lexerAfter inp n) \<Longrightarrow>
   fst (nextToken (lexerAfter inp (n + k))) = Token EOF ''''"
  using nextToken_at_end [of "lexerAfter inp (n + k)"] lexerAfter_keeps [of inp "n + k"]
    lexerAfter_stays_at_end [of inp n k]
  by simp

theorem nextToken_EOF_indefinitely_witness:
  "length ''a;'' \<le> position (lexerAfter ''a;'' (Suc (Suc 0))) \<and>
   fst (nextToken (lexerAfter ''a;'' (Suc (Suc 0) + 5))) = Token EOF ''''"
proof -
  have h: "length ''a;'' \<le> position (lexerAfter ''a;'' (Suc (Suc 0)))"
    by (simp add: lexer_eval)
  from nextToken_EOF_indefinitely [OF h, of 5] h show ?thesis by blast
qed

text \<open>A character that starts no token is returned as \<open>ILLEGAL\<close> and the lexer
  is left where it was: the \<open>return\<close> of that branch comes before the \<open>readChar\<close>
  at the end of \<open>nextToken\<close>. The end of the input is then never reached.\<close>

lemma nextToken_illegal_does_not_advance:
  assumes "ch l = [c]"
    and "c \<notin> set '' =!;:,(){}[]+-*/<>''"
    and "c \<notin> {CHR 0x09, CHR 0x0A, CHR 0x0D, CHR 0x22}"
    and "\<not> isIdentifier [c]" and "\<not> isDigit [c]"
  shows "nextToken l = (Token ILLEGAL [c], l)"
proof -
  have w: "skipWhitespace l = l"
    using assms by (simp add: skipWhitespace.simps [of l] WHITE_SPACES_def)
  show ?thesis
    unfolding nextToken_def w Let_def using assms
    by (simp add: ZERO_def)
qed

lemma at_sign_is_illegal: "\<not> isIdentifier ''@'' \<and> \<not> isDigit ''@''"
  by (simp add: isIdentifier_def isDigit_def toLowerCase_def toUpperCase_def lowerCaseOf_def
      upperCaseOf_def codeUnit_def)

lemma latin1_letter_is_identifier: "isIdentifier [CHR 0xE9] \<and> isIdentifier [CHR 0xDF]"
  by (simp add: isIdentifier_def toLowerCase_def toUpperCase_def lowerCaseOf_def
      upperCaseOf_def codeUnit_def)

section \<open>Parsing an expression with operators of different precedence\<close>

lemma andThen_simps:
  "andThen (Return x s) f = f x s"
  "andThen (Throw e s) f = Throw e s"
  "andThen Exhausted f = Exhausted"
  by (simp_all add: andThen_def)

text \<open>With this rule the simplifier evaluates the first computation before it looks
  at the continuation.\<close>

lemma andThen_weak_cong: "r = r' \<Longrightarrow> andThen r f = andThen r' f"
  by simp

lemmas parser_eval =
  parse_def parseProgram_def newParser_def advance_def andThen_simps
  findPrecedence_def precedences_def peekPrecedence_def curPrecedence_def peekTokenIs_def
  curTokenIs_def peekError_def noPrefixParserError_def expectPeek_def
  parseIntegerLiteral_def parseBooleanLiteral_def parseIdentifier_def parseStringLiteral_def
  parsePrefixExpression_def parseGroupExpression_def parseExpressionList_def
  parseArrayLiteral_def parseReturnStatement_def parseLetStatement_def
  parseExpressionStatement_def parseStatement_def parseBlockStatement_def
  parseIfExpression_def parseFunctionParameters_def parseFunctionLiteral_def
  parseHashLiteral_def parseInfixExpression_def parseCallExpression_def
  parseIndexExpression_def prefixParsers_def infixParsers_def
  isNaN_def parseInt_def digitValue_def programToString_def

text \<open>
  Claim C9. Parsing \<open>a + b * c + d / e - f\<close> returns (within the bound 10 on the
  depth of the descent) a program and a parser with no errors, and the program's
  \<open>toString()\<close> is \<open>(((a + (b * c)) + (d / e)) - f)\<close>.
\<close>

theorem parse_operator_precedence:
  "(case parse 10 ''a + b * c + d / e - f'' of
      Return prog p \<Rightarrow>
        errors p = [] \<and> programToString prog = ''(((a + (b * c)) + (d / e)) - f)''
    | Throw e p \<Rightarrow> False
    | Exhausted \<Rightarrow> False)"
  by (simp add: parser_eval lexer_eval eval_nat_numeral cong: andThen_weak_cong)

section \<open>Evaluating concrete programs\<close>

lemma ifNotError_weak_cong:
  "obj = obj' \<Longrightarrow> s = s' \<Longrightarrow> ifNotError obj body s = ifNotError obj' body s'"
  by simp

lemmas evaluator_eval =
  testEval_def evaluate_def initialState_def initialObjects_def builtins_def
  newEnvironment_def newEnclosedEnvironment_def envSet_def envPut_def
  asInteger_def asString_def asReturnValue_def asArray_def asHash_def isError_def
  ifNotError_def evalBangOperatorExpression_def evalMinusPrefixOperatorExpression_def
  toMonkey_def evalIntegerInfixExpression_def evalInfixExpression_def
  evalBlockStatement_def evalExpressions_def extendFunctionEnv_def applyFunction_def
  evalArrayIndexExpression_def evalHashIndexExpression_def isTruthy_def
  new_def newArray_def M_TRUE_def M_FALSE_def M_NULL_def typeDesc_def hashKey_def
  elementAt_def argSizeCheck_def arrayCheck_def builtinLen_def builtinPush_def
  builtinFirst_def builtinLast_def builtinRest_def natToString_def
  numSub_def numGreater_def numStrictEq_def infinityOfSign_def

text \<open>On two integers, the second not zero, \<open>/\<close> gives the exact quotient.\<close>

lemma integer_division_is_exact:
  "r \<noteq> 0 \<Longrightarrow>
   evalIntegerInfixExpression ''/'' (Fin (of_int l)) (Fin (of_int r)) s =
     new (MInteger (Fin (of_int l / of_int r))) s"
  by (simp add: evalIntegerInfixExpression_def)

text \<open>
  Claim C1 (what the code does at \<open>7 / 2\<close>). The \<open>/\<close> of two \<open>MInteger\<close> operands is
  the \<open>/\<close> of JavaScript numbers: the program \<open>7 / 2\<close> evaluates to a new \<open>MInteger\<close>
  whose value is the fraction \<open>7/2\<close>, which is not the truncated quotient \<open>3\<close>.
\<close>

theorem integer_division_keeps_the_fraction:
  "testEval 10 ''7 / 2'' =
     Return (Obj 10)
       \<lparr>objects = initialObjects @ [MInteger (Fin 7), MInteger (Fin 2), MInteger (Fin (7 / 2))],
        arrays = [], environments = [\<lparr>store = [], outer = None\<rparr>]\<rparr> \<and>
   Fin (7 / 2) \<noteq> Fin 3"
  by (simp add: evaluator_eval parser_eval lexer_eval eval_nat_numeral
      cong: andThen_weak_cong ifNotError_weak_cong)

text \<open>On two \<open>MString\<close> objects, \<open>==\<close> and \<open>!=\<close> compare the references: the
  generic branch \<open>toMonkey(left === right)\<close> is all that \<open>evalInfixExpression\<close> has
  for operands that are not both \<open>MInteger\<close>.\<close>

lemma evalInfixExpression_strings_by_reference:
  assumes "asString s left = Some x" and "asString s right = Some y"
  shows "evalInfixExpression ''=='' left right s = Return (toMonkey (left = right)) s \<and>
         evalInfixExpression ''!='' left right s = Return (toMonkey (left \<noteq> right)) s"
proof -
  have "asInteger s left = None"
    using assms(1) by (auto simp: asString_def asInteger_def split: Ref.splits MObject.splits)
  then show ?thesis by (simp add: evalInfixExpression_def)
qed

text \<open>As keys of a hash, strings are matched by their text: \<open>{"a": 1}["a"]\<close> finds
  the pair.\<close>

lemma hash_keys_match_strings_by_text:
  "(case testEval 10 ''{\"a\": 1}[\"a\"]'' of
      Return r s \<Rightarrow> asInteger s r = Some (Fin 1)
    | Throw e s \<Rightarrow> False
    | Exhausted \<Rightarrow> False)"
  by (simp add: evaluator_eval parser_eval lexer_eval eval_nat_numeral
      cong: andThen_weak_cong ifNotError_weak_cong)

text \<open>
  Claim C2 (what the code does at \<open>"a" == "a"\<close>). Each of the two string literals
  evaluates to a new \<open>MString\<close>, and \<open>==\<close> compares the two references: the program
  evaluates to \<open>FALSE\<close>, although the two strings have the same text.
\<close>

theorem equal_string_literals_compare_false:
  "testEval 10 ''\"a\" == \"a\"'' =
     Return M_FALSE
       \<lparr>objects = initialObjects @ [MString ''a'', MString ''a''],
        arrays = [], environments = [\<lparr>store = [], outer = None\<rparr>]\<rparr> \<and>
   M_FALSE \<noteq> M_TRUE"
  by (simp add: evaluator_eval parser_eval lexer_eval eval_nat_numeral
      cong: andThen_weak_cong ifNotError_weak_cong)

text \<open>The first key of a hash literal that evaluates to something other than an
  \<open>MInteger\<close>, \<open>MBoolean\<close>, \<open>MString\<close> or \<open>MError\<close> ends the evaluation with
  this error.\<close>

lemma hash_literal_unusable_key:
  assumes "ev (Some k) env s = Return keyObject s1"
    and "\<not> isError s1 keyObject"
    and "hashKey s1 keyObject = None"
  shows "evalHashLiteralPairs ev ((k, v) # rest) env pairs s =
         new (MError (''unusable as hash key: '' @ typeDesc s1 keyObject)) s1"
  using assms by (simp add: andThen_simps)

text \<open>
  Claim C3 (what the code does at \<open>{fn(x){x}: 1}\<close>). A hash literal whose key is a
  function evaluates to an \<open>MError\<close> whose message is \<open>unusable as hash key: MFunction\<close>,
  without the \<open>a\<close> that the index expression's message has.
\<close>

theorem hash_literal_key_error_message:
  "testEval 10 ''{fn(x){x}: 1}'' =
     Return (Obj 9)
       \<lparr>objects = initialObjects @
          [MFunction (Some [Identifier (Token IDENT ''x'') ''x''])
             (Some (BlockStatement (Token LBRACE ''{'')
                (Some [Some (ExpressionStatement (Token IDENT ''x'')
                   (Some (IdentifierNode (Identifier (Token IDENT ''x'') ''x''))))]))) 0,
           MError ''unusable as hash key: MFunction''],
        arrays = [], environments = [\<lparr>store = [], outer = None\<rparr>]\<rparr> \<and>
   ''unusable as hash key: MFunction'' \<noteq> ''unusable as a hash key: MFunction''"
  by (simp add: evaluator_eval parser_eval lexer_eval eval_nat_numeral
      cong: andThen_weak_cong ifNotError_weak_cong)


section \<open>An argument that evaluates to an error ends the call\<close>

lemma evalExpressionsLoop_append:
  assumes "evalExpressionsLoop ev pre env acc s = Return vs s1"
    and "\<forall>v \<in> set vs. \<not> isError s1 v"
  shows "evalExpressionsLoop ev (pre @ rest) env acc s = evalExpressionsLoop ev rest env vs s1"
  using assms
proof (induction pre arbitrary: acc s)
  case Nil
  then show ?case by simp
next
  case (Cons a pre)
  from Cons.prems(1) obtain v s' where ev: "ev a env s = Return v s'"
    by (cases "ev a env s") (simp_all add: andThen_simps)
  show ?case
  proof (cases "isError s' v")
    case True
    with Cons.prems ev show ?thesis by (auto simp: andThen_simps)
  next
    case False
    with Cons.prems ev have "evalExpressionsLoop ev pre env (acc @ [v]) s' = Return vs s1"
      by (simp add: andThen_simps)
    from Cons.IH [OF this Cons.prems(2)] ev False show ?thesis
      by (simp add: andThen_simps)
  qed
qed

text \<open>A callee that evaluates to \<open>null\<close> (or to \<open>undefined\<close>, or to an error) is
  what \<open>ifNotError\<close> returns at once: the call has that value, and no argument is
  evaluated.\<close>

lemma call_with_callee_not_an_object:
  assumes "evaluateNode n fn env s = Return c s1"
    and "c = Null \<or> c = Undefined \<or> isError s1 c"
  shows "evaluateNode (Suc n) (Some (CallExpression t fn args)) env s = Return c s1"
  using assms by (auto simp: andThen_simps ifNotError_def split: Ref.splits)

text \<open>
  Claim C4, as stated, fails. In \<open>if (true) {} (foo)\<close> the callee is an \<open>if\<close>
  expression whose empty block evaluates to \<open>null\<close>, and the argument \<open>foo\<close> is an
  expression that evaluates to the error \<open>identifier not found: foo\<close>. The call
  evaluates to \<open>null\<close>, not to that error, and makes no object: \<open>foo\<close> is never
  evaluated.
\<close>

theorem call_with_null_callee_returns_null:
  "testEval 10 ''if (true) {} (foo)'' =
     Return Null
       \<lparr>objects = initialObjects, arrays = [],
        environments = [\<lparr>store = [], outer = None\<rparr>]\<rparr> \<and>
   testEval 10 ''foo'' =
     Return (Obj 8)
       \<lparr>objects = initialObjects @ [MError ''identifier not found: foo''], arrays = [],
        environments = [\<lparr>store = [], outer = None\<rparr>]\<rparr> \<and>
   Null \<noteq> Obj 8"
  by (simp add: evaluator_eval parser_eval lexer_eval eval_nat_numeral
      cong: andThen_weak_cong ifNotError_weak_cong)

text \<open>
  Claim C4, amended. In a call whose arguments are \<open>pre\<close>, then \<open>a\<close>, then \<open>post\<close>:
  when the callee evaluates to an object that is not an error, the arguments \<open>pre\<close>
  evaluate, one after the other from left to right, to values \<open>vs\<close> none of which is
  an error, and \<open>a\<close> then evaluates to an error \<open>e\<close> leaving the state \<open>s3\<close>, the
  call returns \<open>e\<close> in that same state \<open>s3\<close>. Nothing is evaluated after \<open>a\<close> (the
  state in which the call ends is the one \<open>a\<close> left, and \<open>post\<close> has no part in the
  result), and the callee is not applied.
\<close>

theorem call_argument_error_short_circuits:
  assumes "evaluateNode n fn env s = Return (Obj f) s1"
    and "\<not> isError s1 (Obj f)"
    and "evalExpressionsLoop (evaluateNode n) pre env [] s1 = Return vs s2"
    and "\<forall>v \<in> set vs. \<not> isError s2 v"
    and "evaluateNode n a env s2 = Return e s3"
    and "isError s3 e"
  shows "evaluateNode (Suc n) (Some (CallExpression t fn (Some (pre @ a # post)))) env s =
         Return e s3"
proof -
  have "evalExpressionsLoop (evaluateNode n) (pre @ a # post) env [] s1 =
        evalExpressionsLoop (evaluateNode n) (a # post) env vs s2"
    using assms(3,4) by (rule evalExpressionsLoop_append)
  also have "\<dots> = Return [e] s3"
    using assms(5,6) by (simp add: andThen_simps)
  finally show ?thesis
    using assms(1,2,6)
    by (simp add: andThen_simps ifNotError_def evalExpressions_def elementAt_def)
qed

text \<open>An instance: the call \<open>len(1, foo, let a = 3)\<close> in a fresh environment:
  \<open>foo\<close> is not found, and \<open>a\<close> is not bound afterwards.\<close>

theorem call_argument_error_short_circuits_witness:
  "evaluateNode (Suc 2)
     (Some (CallExpression (Token LPAREN ''('')
        (Some (IdentifierNode (Identifier (Token IDENT ''len'') ''len'')))
        (Some ([Some (IntegerLiteral (Token INT_T ''1'') (Fin 1))] @
               Some (IdentifierNode (Identifier (Token IDENT ''foo'') ''foo'')) #
               [Some (LetStatement (Token LET ''let'') (Identifier (Token IDENT ''a'') ''a'')
                  (Some (IntegerLiteral (Token INT_T ''3'') (Fin 3))))]))))
     0 \<lparr>objects = initialObjects, arrays = [], environments = [\<lparr>store = [], outer = None\<rparr>]\<rparr> =
   Return (Obj 9)
     \<lparr>objects = initialObjects @ [MInteger (Fin 1), MError ''identifier not found: foo''],
      arrays = [], environments = [\<lparr>store = [], outer = None\<rparr>]\<rparr>"
proof -
  let ?s = "\<lparr>objects = initialObjects, arrays = [],
             environments = [\<lparr>store = [], outer = None\<rparr>]\<rparr>"
  let ?s2 = "\<lparr>objects = initialObjects @ [MInteger (Fin 1)], arrays = [],
              environments = [\<lparr>store = [], outer = None\<rparr>]\<rparr>"
  let ?s3 = "\<lparr>objects = initialObjects @ [MInteger (Fin 1), MError ''identifier not found: foo''],
              arrays = [], environments = [\<lparr>store = [], outer = None\<rparr>]\<rparr>"
  have h1: "evaluateNode 2 (Some (IdentifierNode (Identifier (Token IDENT ''len'') ''len''))) 0 ?s =
            Return (Obj 3) ?s"
    by (simp add: evaluator_eval eval_nat_numeral)
  have h2: "\<not> isError ?s (Obj 3)"
    by (simp add: evaluator_eval)
  have h3: "evalExpressionsLoop (evaluateNode 2)
              [Some (IntegerLiteral (Token INT_T ''1'') (Fin 1))] 0 [] ?s = Return [Obj 8] ?s2"
    by (simp add: evaluator_eval andThen_simps eval_nat_numeral)
  have h4: "\<forall>v \<in> set [Obj 8]. \<not> isError ?s2 v"
    by (simp add: evaluator_eval)
  have h5: "evaluateNode 2 (Some (IdentifierNode (Identifier (Token IDENT ''foo'') ''foo''))) 0 ?s2 =
            Return (Obj 9) ?s3"
    by (simp add: evaluator_eval eval_nat_numeral)
  have h6: "isError ?s3 (Obj 9)"
    by (simp add: evaluator_eval)
  from call_argument_error_short_circuits [OF h1 h2 h3 h4 h5 h6] show ?thesis .
qed

section \<open>A return value inside a return value\<close>

text \<open>\<open>evaluate\<close> returns the payload of the first \<open>MReturnValue\<close> a statement
  evaluates to, whatever that payload is.\<close>

lemma evaluate_unwraps_once:
  assumes "evaluateNode n (Some statement) env s = Return r s'"
    and "asReturnValue s' r = Some v"
  shows "evaluate n (Program (statement # rest)) env s = Return v s'"
  using assms by (simp add: evaluate_def andThen_simps)

text \<open>
  Claim C5 (what the code does at \<open>return if (true) { return 5; };\<close>). The inner
  \<open>return\<close> makes the \<open>if\<close> expression evaluate to an \<open>MReturnValue\<close>, the outer
  \<open>return\<close> wraps it in a second one, and \<open>evaluate\<close> unwraps one: the object returned,
  at address 9, is the inner \<open>MReturnValue\<close>.
\<close>

theorem evaluate_returns_a_return_value:
  "testEval 10 ''return if (true) { return 5; };'' =
     Return (Obj 9)
       \<lparr>objects = initialObjects @
          [MInteger (Fin 5), MReturnValue (Obj 8), MReturnValue (Obj 9)],
        arrays = [], environments = [\<lparr>store = [], outer = None\<rparr>]\<rparr> \<and>
   (initialObjects @ [MInteger (Fin 5), MReturnValue (Obj 8), MReturnValue (Obj 9)]) ! 9 =
     MReturnValue (Obj 8)"
  by (simp add: evaluator_eval parser_eval lexer_eval eval_nat_numeral
      cong: andThen_weak_cong ifNotError_weak_cong)

section \<open>No new \<open>MBoolean\<close> and no new \<open>MNull\<close>\<close>

lemma onlyAdds_iff:
  "onlyAdds s s' = (\<exists>added. objects s' = objects s @ added \<and> (\<forall>ob \<in> set added. \<not> isBooleanOrNull ob))"
proof
  assume a: "onlyAdds s s'"
  have "objects s' = take (length (objects s)) (objects s') @ drop (length (objects s)) (objects s')"
    by simp
  with a show "\<exists>added. objects s' = objects s @ added \<and> (\<forall>ob \<in> set added. \<not> isBooleanOrNull ob)"
    unfolding onlyAdds_def list_all_iff by metis
next
  assume "\<exists>added. objects s' = objects s @ added \<and> (\<forall>ob \<in> set added. \<not> isBooleanOrNull ob)"
  then show "onlyAdds s s'" by (auto simp: onlyAdds_def list_all_iff)
qed

lemma onlyAdds_refl: "onlyAdds s s"
  by (simp add: onlyAdds_iff)

lemma onlyAdds_same_objects: "objects s' = objects s \<Longrightarrow> onlyAdds s s'"
  by (simp add: onlyAdds_iff)

lemma onlyAdds_trans: "onlyAdds s s1 \<Longrightarrow> onlyAdds s1 s2 \<Longrightarrow> onlyAdds s s2"
  by (auto simp: onlyAdds_iff)

lemma keeps_mono: "onlyAdds s s1 \<Longrightarrow> keeps s1 m \<Longrightarrow> keeps s m"
  by (auto simp: keeps_def split: Outcome.splits intro: onlyAdds_trans)

lemma keeps_Return: "onlyAdds s s' \<Longrightarrow> keeps s (Return r s')"
  by (simp add: keeps_def)

lemma keeps_Return_same [simp]: "keeps s (Return r s)"
  by (simp add: keeps_def onlyAdds_refl)

lemma keeps_Throw_same [simp]: "keeps s (Throw e s)"
  by (simp add: keeps_def onlyAdds_refl)

lemma keeps_Exhausted [simp]: "keeps s Exhausted"
  by (simp add: keeps_def)

lemma keeps_andThen:
  assumes "keeps s m" and "\<And>x s1. m = Return x s1 \<Longrightarrow> keeps s1 (f x s1)"
  shows "keeps s (andThen m f)"
proof (cases m)
  case (Return x s1)
  with assms(1) have "onlyAdds s s1" by (simp add: keeps_def)
  with assms(2) [OF Return] Return show ?thesis by (simp add: andThen_simps keeps_mono)
next
  case (Throw e s1)
  with assms(1) show ?thesis by (simp add: andThen_simps keeps_def)
next
  case Exhausted
  then show ?thesis by (simp add: andThen_simps)
qed

lemma keeps_new: "\<not> isBooleanOrNull ob \<Longrightarrow> keeps s (new ob s)"
  by (simp add: new_def keeps_def onlyAdds_iff)

lemma keeps_new_simps [simp]:
  "keeps s (new (MInteger v) s)" "keeps s (new (MString str) s)" "keeps s (new (MError m) s)"
  "keeps s (new (MReturnValue r) s)" "keeps s (new (MFunction ps b e) s)"
  "keeps s (new (MArray ea) s)" "keeps s (new (MHash pairs) s)"
  by (simp_all add: keeps_new isBooleanOrNull_def)

lemma keeps_ifNotError:
  "(\<And>a. obj = Obj a \<Longrightarrow> keeps s (body obj s)) \<Longrightarrow> keeps s (ifNotError obj body s)"
  by (auto simp: ifNotError_def split: Ref.splits)

lemma objects_envSet [simp]: "objects (envSet e name v s) = objects s"
  by (simp add: envSet_def)

lemma keeps_argSizeCheck:
  "(\<And>s'. keeps s' (body args s')) \<Longrightarrow> keeps s (argSizeCheck k args body s)"
  by (simp add: argSizeCheck_def)

lemma keeps_arrayCheck:
  "(\<And>ea n s'. keeps s' (body ea n s')) \<Longrightarrow> keeps s (arrayCheck name args body s)"
  by (simp add: arrayCheck_def Let_def split: Ref.splits MObject.splits)

lemma keeps_builtinFn: "keeps s (builtinFn b args s)"
proof (cases b)
  case Len
  then show ?thesis
    by (auto simp: builtinLen_def Let_def intro!: keeps_argSizeCheck split: Ref.splits MObject.splits)
next
  case Push
  have "\<And>ea s'. keeps s' (new (MArray ea) (s'\<lparr>arrays := (arrays s')[ea := arrays s' ! ea @ [elementAt args 1]]\<rparr>))"
    by (simp add: new_def keeps_def onlyAdds_iff isBooleanOrNull_def)
  with Push show ?thesis
    by (auto simp: builtinPush_def intro!: keeps_argSizeCheck keeps_arrayCheck)
next
  case First
  then show ?thesis
    by (auto simp: builtinFirst_def intro!: keeps_argSizeCheck keeps_arrayCheck)
next
  case Last
  then show ?thesis
    by (auto simp: builtinLast_def intro!: keeps_argSizeCheck keeps_arrayCheck)
next
  case Rest
  have "\<And>es s'. keeps s' (case newArray es s' of (sliced, s'') \<Rightarrow> new (MArray sliced) s'')"
    by (simp add: newArray_def new_def keeps_def onlyAdds_iff isBooleanOrNull_def)
  with Rest show ?thesis
    by (auto simp: builtinRest_def intro!: keeps_argSizeCheck keeps_arrayCheck)
qed

lemma keeps_evalStatements:
  assumes "\<And>node env s. keeps s (ev node env s)"
  shows "keeps s (evalStatements ev stmts env result s)"
proof (induction stmts arbitrary: result s)
  case Nil
  show ?case by simp
next
  case (Cons statement rest)
  show ?case
    by (auto intro!: keeps_andThen assms Cons.IH)
qed

lemma keeps_evalBlockStatement:
  assumes "\<And>node env s. keeps s (ev node env s)"
  shows "keeps s (evalBlockStatement ev b env s)"
  by (auto simp: evalBlockStatement_def intro!: keeps_evalStatements assms
      split: BlockStatement.splits option.splits)

lemma keeps_evalExpressionsLoop:
  assumes "\<And>node env s. keeps s (ev node env s)"
  shows "keeps s (evalExpressionsLoop ev args env acc s)"
proof (induction args arbitrary: acc s)
  case Nil
  show ?case by simp
next
  case (Cons argument rest)
  show ?case
    by (auto intro!: keeps_andThen assms Cons.IH)
qed

lemma keeps_evalExpressions:
  assumes "\<And>node env s. keeps s (ev node env s)"
  shows "keeps s (evalExpressions ev args env s)"
  by (auto simp: evalExpressions_def intro!: keeps_evalExpressionsLoop assms split: option.splits)

lemma objects_foldl_envSet:
  "objects (foldl (\<lambda>st (identifier, i). envSet env (identValue identifier) (elementAt args i) st) s xs)
   = objects s"
  by (induction xs arbitrary: s) (auto simp: case_prod_beta)

lemma objects_extendFunctionEnv:
  "extendFunctionEnv ps fenv args s = (env, s') \<Longrightarrow> objects s' = objects s"
  by (auto simp: extendFunctionEnv_def newEnclosedEnvironment_def objects_foldl_envSet
      split: option.splits)

lemma keeps_applyFunction:
  assumes "\<And>node env s. keeps s (ev node env s)"
  shows "keeps s (applyFunction ev fn args s)"
proof -
  have fn: "keeps s (case extendFunctionEnv ps fenv args s of
      (extendEnv, s1) \<Rightarrow>
        andThen (ev (map_option BlockNode body) extendEnv s1) (\<lambda>evaluated s2.
          case asReturnValue s2 evaluated of
            Some v \<Rightarrow> Return v s2
          | None \<Rightarrow> Return evaluated s2))" for ps fenv body
  proof (cases "extendFunctionEnv ps fenv args s")
    case (Pair extendEnv s1)
    then have "onlyAdds s s1"
      by (auto dest!: objects_extendFunctionEnv intro: onlyAdds_same_objects)
    moreover have "keeps s1 (andThen (ev (map_option BlockNode body) extendEnv s1) (\<lambda>evaluated s2.
          case asReturnValue s2 evaluated of
            Some v \<Rightarrow> Return v s2
          | None \<Rightarrow> Return evaluated s2))"
      by (auto intro!: keeps_andThen assms split: option.splits)
    ultimately show ?thesis using Pair by (simp add: keeps_mono)
  qed
  have bi: "keeps s (andThen (builtinFn b args s) (\<lambda>result s1.
                   if result = Null then Return M_NULL s1 else Return result s1))" for b
    by (auto intro!: keeps_andThen keeps_builtinFn)
  show ?thesis
    unfolding applyFunction_def Let_def
    using fn bi by (simp split: Ref.splits MObject.splits)
qed

lemma keeps_evalHashLiteralPairs:
  assumes "\<And>node env s. keeps s (ev node env s)"
  shows "keeps s (evalHashLiteralPairs ev kvs env pairs s)"
proof (induction kvs arbitrary: pairs s)
  case Nil
  show ?case by simp
next
  case (Cons kv rest)
  show ?case
    by (auto intro!: keeps_andThen assms Cons.IH split: option.splits)
qed

lemma keeps_evalInfixExpression: "keeps s (evalInfixExpression operator left right s)"
  by (auto simp: evalInfixExpression_def evalIntegerInfixExpression_def split: option.splits bool.splits)

lemma keeps_evalHashIndexExpression: "keeps s (evalHashIndexExpression pairs index s)"
  by (auto simp: evalHashIndexExpression_def split: option.splits)

lemma keeps_evalMinus: "keeps s (evalMinusPrefixOperatorExpression right s)"
  by (auto simp: evalMinusPrefixOperatorExpression_def split: option.splits)

lemma keeps_envPut: "keeps s (envPut env name v s)"
  by (simp add: envPut_def keeps_def onlyAdds_same_objects)

lemma keeps_newArray_new:
  "keeps s (case newArray es s of (created, s2) \<Rightarrow> new (MArray created) s2)"
  by (simp add: newArray_def new_def keeps_def onlyAdds_iff isBooleanOrNull_def)

lemma keeps_evaluateNode: "keeps s (evaluateNode n node env s)"
proof (induction n arbitrary: node env s)
  case 0
  show ?case by simp
next
  case (Suc n)
  note ev = Suc.IH
  show ?case
  proof (cases node)
    case None
    then show ?thesis by simp
  next
    case (Some nd)
    show ?thesis
    proof (cases nd)
      case (IdentifierNode i)
      with Some show ?thesis by (simp split: option.splits)
    next
      case (InfixExpression t left operator right)
      with Some show ?thesis
        by (auto intro!: keeps_andThen keeps_ifNotError ev keeps_evalInfixExpression)
    next
      case (BlockNode b)
      with Some show ?thesis by (auto intro!: keeps_evalBlockStatement ev)
    next
      case (IfExpression t condition consequence alternative)
      with Some show ?thesis
        by (auto intro!: keeps_andThen keeps_ifNotError ev keeps_evalBlockStatement
            split: option.splits)
    next
      case (CallExpression t fn args)
      with Some show ?thesis
        by (auto intro!: keeps_andThen keeps_ifNotError ev keeps_evalExpressions
            keeps_applyFunction)
    next
      case (PrefixExpression t operator right)
      with Some show ?thesis
        by (auto intro!: keeps_andThen keeps_ifNotError ev keeps_evalMinus)
    next
      case (LetStatement t name v)
      with Some show ?thesis
        by (auto intro!: keeps_andThen keeps_ifNotError ev keeps_envPut)
    next
      case (IndexExpression t left index)
      with Some show ?thesis
        by (auto intro!: keeps_andThen ev keeps_evalHashIndexExpression split: option.splits)
    next
      case (HashLiteral t pairs)
      with Some show ?thesis by (auto intro!: keeps_evalHashLiteralPairs ev)
    next
      case (ArrayLiteral t elements)
      with Some show ?thesis
        by (auto intro!: keeps_andThen keeps_evalExpressions ev keeps_newArray_new)
    next
      case (ReturnStatement t returnValue)
      with Some show ?thesis by (auto intro!: keeps_andThen keeps_ifNotError ev)
    qed (use Some ev in simp_all)
  qed
qed

lemma keeps_evaluateStatements:
  assumes "\<And>node env s. keeps s (ev node env s)"
  shows "keeps s (evaluateStatements ev stmts env result s)"
proof (induction stmts arbitrary: result s)
  case Nil
  show ?case by simp
next
  case (Cons statement rest)
  show ?case
    by (auto intro!: keeps_andThen assms Cons.IH split: option.splits)
qed

lemma keeps_evaluate: "keeps s (evaluate n program env s)"
  unfolding evaluate_def by (rule keeps_evaluateStatements) (rule keeps_evaluateNode)

lemma canonical_onlyAdds:
  assumes "canonical s" and "onlyAdds s s'"
  shows "canonical s'"
proof -
  from assms(2) obtain added where a: "objects s' = objects s @ added"
    "\<forall>ob \<in> set added. \<not> isBooleanOrNull ob"
    by (auto simp: onlyAdds_iff)
  from assms(1) have "length (take 3 (objects s)) = 3"
    by (simp add: canonical_def)
  then have l: "3 \<le> length (objects s)" by simp
  from l a(1) have t: "take 3 (objects s') = take 3 (objects s)" by simp
  from l a(1) have d: "drop 3 (objects s') = drop 3 (objects s) @ added" by simp
  from assms(1) a(2) show ?thesis
    unfolding canonical_def t d by (auto simp: list_all_iff)
qed

lemma canonical_singletons:
  assumes "canonical s" and "a < length (objects s)"
  shows "(objects s ! a = MBoolean b \<longrightarrow> Obj a = toMonkey b) \<and>
         (objects s ! a = MNull \<longrightarrow> Obj a = M_NULL)"
proof (cases "a < 3")
  case True
  from assms(1) have "take 3 (objects s) ! a = [MBoolean True, MBoolean False, MNull] ! a"
    by (simp add: canonical_def)
  with True have v: "objects s ! a = [MBoolean True, MBoolean False, MNull] ! a" by simp
  from True consider "a = 0" | "a = 1" | "a = 2" by linarith
  then show ?thesis
    using v by cases (simp_all add: toMonkey_def M_TRUE_def M_FALSE_def M_NULL_def)
next
  case False
  then have "a = 3 + (a - 3)" by simp
  moreover from False assms(2) have i: "a - 3 < length (drop 3 (objects s))" by simp
  ultimately have "drop 3 (objects s) ! (a - 3) = objects s ! a"
    using assms(2) by (metis False nth_drop nat_le_linear not_less order_trans less_imp_le_nat)
  moreover from assms(1) i have "\<not> isBooleanOrNull (drop 3 (objects s) ! (a - 3))"
    unfolding canonical_def list_all_length by blast
  ultimately have "\<not> isBooleanOrNull (objects s ! a)" by simp
  then show ?thesis by (auto simp: isBooleanOrNull_def)
qed

text \<open>
  Claim C6. Take a state whose only \<open>MBoolean\<close> and \<open>MNull\<close> objects are \<open>TRUE\<close>,
  \<open>FALSE\<close> and \<open>NULL\<close>, as the state is when the modules have loaded. Whatever the
  program, the environment and the bound, when \<open>evaluate\<close> returns, the objects it has
  made contain no \<open>MBoolean\<close> and no \<open>MNull\<close>, and every \<open>MBoolean\<close> object of the
  final state is \<open>TRUE\<close> or \<open>FALSE\<close> (the one \<open>toMonkey\<close> gives for its value) and
  every \<open>MNull\<close> object is \<open>NULL\<close>: so is, then, any such object that \<open>evaluate\<close>
  returns or has stored.
\<close>

theorem evaluate_makes_no_boolean_or_null:
  assumes "canonical s" and "evaluate n program env s = Return r s'"
  shows "onlyAdds s s' \<and>
         (\<forall>a b. a < length (objects s') \<longrightarrow>
            (objects s' ! a = MBoolean b \<longrightarrow> Obj a = toMonkey b) \<and>
            (objects s' ! a = MNull \<longrightarrow> Obj a = M_NULL))"
proof -
  from keeps_evaluate [of s n program env] assms(2) have o: "onlyAdds s s'"
    by (simp add: keeps_def)
  with assms(1) have "canonical s'" by (rule canonical_onlyAdds)
  with o show ?thesis using canonical_singletons by blast
qed

text \<open>An instance: the program \<open>!5\<close> in a fresh environment.\<close>

theorem evaluate_makes_no_boolean_or_null_witness:
  "evaluate 3
     (Program [ExpressionStatement (Token BANG ''!'')
        (Some (PrefixExpression (Token BANG ''!'') ''!''
           (Some (IntegerLiteral (Token INT_T ''5'') (Fin 5)))))])
     0 \<lparr>objects = initialObjects, arrays = [], environments = [\<lparr>store = [], outer = None\<rparr>]\<rparr> =
   Return M_FALSE
     \<lparr>objects = initialObjects @ [MInteger (Fin 5)], arrays = [],
      environments = [\<lparr>store = [], outer = None\<rparr>]\<rparr> \<and>
   onlyAdds
     \<lparr>objects = initialObjects, arrays = [], environments = [\<lparr>store = [], outer = None\<rparr>]\<rparr>
     \<lparr>objects = initialObjects @ [MInteger (Fin 5)], arrays = [],
      environments = [\<lparr>store = [], outer = None\<rparr>]\<rparr>"
proof -
  let ?s = "\<lparr>objects = initialObjects, arrays = [],
             environments = [\<lparr>store = [], outer = None\<rparr>]\<rparr>"
  have h1: "canonical ?s"
    by (simp add: canonical_def initialObjects_def isBooleanOrNull_def)
  have h2: "evaluate 3
     (Program [ExpressionStatement (Token BANG ''!'')
        (Some (PrefixExpression (Token BANG ''!'') ''!''
           (Some (IntegerLiteral (Token INT_T ''5'') (Fin 5)))))]) 0 ?s =
     Return M_FALSE
       \<lparr>objects = initialObjects @ [MInteger (Fin 5)], arrays = [],
        environments = [\<lparr>store = [], outer = None\<rparr>]\<rparr>"
    by (simp add: evaluator_eval andThen_simps eval_nat_numeral)
  from evaluate_makes_no_boolean_or_null [OF h1 h2] h2 show ?thesis by blast
qed

section \<open>Indexing an array\<close>

lemma evalArrayIndexExpression_integer:
  "evalArrayIndexExpression elements (Fin (of_int i)) =
    (if 0 \<le> i \<and> i \<le> int (length elements) - 1 then elements ! nat i else M_NULL)"
proof -
  have a: "((of_int i :: rat) < 0) = (i < 0)" by simp
  have b: "((of_nat (length elements) :: rat) - 1 < of_int i) = (int (length elements) - 1 < i)"
  proof -
    have "(of_nat (length elements) :: rat) - 1 = of_int (int (length elements) - 1)" by simp
    then show ?thesis by (simp only: of_int_less_iff)
  qed
  show ?thesis
    unfolding evalArrayIndexExpression_def Let_def numSub_def numGreater_def
    using a b by (auto simp: elementAt_def)
qed

text \<open>
  Claim C8. When the left operand of an index expression evaluates to an \<open>MArray\<close> and
  the index to an \<open>MInteger\<close> whose value is the integer \<open>i\<close>, the index expression
  returns, in the state the two evaluations left: the element at position \<open>i\<close> when
  \<open>0 \<le> i \<le> n - 1\<close> for the length \<open>n\<close> of the array, and \<open>NULL\<close> otherwise. It makes
  no object, so no error, and does not throw.
\<close>

theorem array_index_in_or_out_of_range:
  assumes "evaluateNode n left env s = Return l s1"
    and "\<not> isError s1 l"
    and "evaluateNode n index env s1 = Return ix s2"
    and "asArray s2 l = Some ea"
    and "asInteger s2 ix = Some (Fin (of_int i))"
  shows "evaluateNode (Suc n) (Some (IndexExpression t left index)) env s =
         Return (if 0 \<le> i \<and> i \<le> int (length (arrays s2 ! ea)) - 1
                 then arrays s2 ! ea ! nat i else M_NULL) s2"
proof -
  have "\<not> isError s2 ix"
    using assms(5) by (auto simp: isError_def asInteger_def split: Ref.splits MObject.splits)
  then show ?thesis
    using assms by (simp add: andThen_simps evalArrayIndexExpression_integer)
qed

text \<open>An instance: \<open>[7][1]\<close>, out of range by one.\<close>

theorem array_index_in_or_out_of_range_witness:
  "evaluateNode (Suc 3)
     (Some (IndexExpression (Token LBRACKET ''['')
        (Some (ArrayLiteral (Token LBRACKET ''['')
           (Some [Some (IntegerLiteral (Token INT_T ''7'') (Fin 7))])))
        (Some (IntegerLiteral (Token INT_T ''1'') (Fin 1)))))
     0 \<lparr>objects = initialObjects, arrays = [], environments = []\<rparr> =
   Return M_NULL
     \<lparr>objects = initialObjects @ [MInteger (Fin 7), MArray 0, MInteger (Fin 1)],
      arrays = [[Obj 8]], environments = []\<rparr>"
proof -
  let ?s = "\<lparr>objects = initialObjects, arrays = [], environments = []\<rparr>"
  let ?s1 = "\<lparr>objects = initialObjects @ [MInteger (Fin 7), MArray 0],
              arrays = [[Obj 8]], environments = []\<rparr>"
  let ?s2 = "\<lparr>objects = initialObjects @ [MInteger (Fin 7), MArray 0, MInteger (Fin 1)],
              arrays = [[Obj 8]], environments = []\<rparr>"
  have h1: "evaluateNode 3 (Some (ArrayLiteral (Token LBRACKET ''['')
              (Some [Some (IntegerLiteral (Token INT_T ''7'') (Fin 7))]))) 0 ?s =
            Return (Obj 9) ?s1"
    by (simp add: evaluator_eval andThen_simps eval_nat_numeral)
  have h2: "\<not> isError ?s1 (Obj 9)"
    by (simp add: evaluator_eval)
  have h3: "evaluateNode 3 (Some (IntegerLiteral (Token INT_T ''1'') (Fin 1))) 0 ?s1 =
            Return (Obj 10) ?s2"
    by (simp add: evaluator_eval eval_nat_numeral)
  have h4: "asArray ?s2 (Obj 9) = Some 0"
    by (simp add: evaluator_eval)
  have h5: "asInteger ?s2 (Obj 10) = Some (Fin (of_int 1))"
    by (simp add: evaluator_eval)
  from array_index_in_or_out_of_range [OF h1 h2 h3 h4 h5] show ?thesis by simp
qed

section \<open>\<open>push\<close> writes into the array it is given\<close>

text \<open>
  Claim C10. For an \<open>MArray\<close> object at address \<open>a\<close> whose \<open>elements\<close> is the array at
  \<open>ea\<close>, and any \<open>x\<close>, the built-in \<open>push\<close> returns a new \<open>MArray\<close> object; afterwards
  the array at \<open>ea\<close> is what it was with \<open>x\<close> added at the end, and it is the
  \<open>elements\<close> both of the object at \<open>a\<close> and of the object returned.
\<close>

theorem push_mutates_in_place:
  assumes "a < length (objects s)" and "objects s ! a = MArray ea" and "ea < length (arrays s)"
  shows "\<exists>r s'. builtinFn Push [Obj a, x] s = Return r s' \<and>
           r \<noteq> Obj a \<and>
           asArray s' (Obj a) = Some ea \<and>
           asArray s' r = Some ea \<and>
           arrays s' ! ea = arrays s ! ea @ [x] \<and>
           length (arrays s' ! ea) = length (arrays s ! ea) + 1 \<and>
           last (arrays s' ! ea) = x"
proof -
  have "builtinFn Push [Obj a, x] s =
          Return (Obj (length (objects s)))
            (s\<lparr>arrays := (arrays s)[ea := arrays s ! ea @ [x]],
               objects := objects s @ [MArray ea]\<rparr>)"
    using assms
    by (simp add: builtinPush_def argSizeCheck_def arrayCheck_def elementAt_def new_def Let_def)
  then show ?thesis
    using assms by (auto simp: asArray_def nth_append)
qed

text \<open>An instance: \<open>push\<close> of \<open>NULL\<close> onto an array that holds \<open>TRUE\<close>.\<close>

theorem push_mutates_in_place_witness:
  "\<exists>r s'. builtinFn Push [Obj 8, M_NULL]
            \<lparr>objects = initialObjects @ [MArray 0], arrays = [[M_TRUE]], environments = []\<rparr> =
          Return r s' \<and>
          asArray s' (Obj 8) = Some 0 \<and> asArray s' r = Some 0 \<and>
          arrays s' ! 0 = [M_TRUE, M_NULL]"
proof -
  let ?s = "\<lparr>objects = initialObjects @ [MArray 0], arrays = [[M_TRUE]], environments = []\<rparr>"
  have h1: "8 < length (objects ?s)" by (simp add: initialObjects_def)
  have h2: "objects ?s ! 8 = MArray 0" by (simp add: initialObjects_def)
  have h3: "0 < length (arrays ?s)" by simp
  from push_mutates_in_place [OF h1 h2 h3, of M_NULL] show ?thesis by auto
qed

end
